theory Spec2Isabelle
  imports Complex_Main "HOL-Library.Product_Lexorder" "HOL-Library.Char_ord"
    "HOL-Library.List_Lexorder" "HOL-Library.Multiset" "HOL-Library.Word"
begin

section \<open>Data model (internal/models/expense.go)\<close>

text \<open>
  A calendar date is a triple (year, month, day), ordered lexicographically, which is the
  chronological order. It stands for the \<^verbatim>\<open>time.Time\<close> values of the \<^verbatim>\<open>Date\<close> field (midnight
  UTC of that day) and for the values of the \<^verbatim>\<open>date\<close> column. A timestamp is an integer
  instant; the zero \<^verbatim>\<open>time.Time\<close> is 0. Identifiers are \<^verbatim>\<open>int64\<close> and the pagination
  bounds are \<^verbatim>\<open>int\<close>; the code only compares and formats them, so they are integers here.
  Amounts (\<^verbatim>\<open>float64\<close> in Go, a \<^verbatim>\<open>DECIMAL(10, 2)\<close> column in the store) are exact
  rationals: neither the rounding of floating point nor the rounding of the column to two
  decimals is modelled, so no statement below is about the numeric value that a sum or an
  average of amounts has in Go. Strings are byte lists, as in Go.
\<close>

type_synonym Date = "nat \<times> nat \<times> nat"

type_synonym Time = int

record Expense =
  ID :: int
  Description :: string
  Amount :: rat
  Category :: string
  Date :: Date
  CreatedAt :: Time

record CreateExpenseRequest =
  cr_Description :: string
  cr_Amount :: rat
  cr_Category :: string
  cr_Date :: string

text \<open>A nil pointer field of the update request is \<open>None\<close>.\<close>

record UpdateExpenseRequest =
  up_Description :: "string option"
  up_Amount :: "rat option"
  up_Category :: "string option"
  up_Date :: "string option"

record ExpenseFilter =
  f_Category :: string
  DateFrom :: string
  DateTo :: string
  Limit :: int
  Offset :: int

record ExpenseStats =
  TotalAmount :: rat
  ExpenseCount :: int
  AverageAmount :: rat
  ByCategory :: "string \<rightharpoonup> rat"

section \<open>Errors\<close>

text \<open>
  Go's \<^verbatim>\<open>error\<close> values that occur in the code: \<^verbatim>\<open>sql.ErrNoRows\<close>, any other error
  reported by \<^verbatim>\<open>database/sql\<close> or the driver (with its message), the \<^verbatim>\<open>*time.ParseError\<close>
  of \<^verbatim>\<open>time.Parse\<close> (with the rejected value), and the result of \<^verbatim>\<open>fmt.Errorf\<close>: its
  formatted message and, when the format has a \<^verbatim>\<open>%w\<close> verb, the wrapped error.
\<close>

datatype error =
    ErrNoRows
  | DriverError string
  | ParseError string
  | Errorf string "error option"

text \<open>
  The \<^verbatim>\<open>Error()\<close> method. The text of a \<^verbatim>\<open>*time.ParseError\<close> depends on the element of the
  layout at which parsing stopped; it is not rendered here, and \<open>Error\<close> is left unspecified
  on a parse error.
\<close>

fun Error :: "error \<Rightarrow> string" where
  "Error ErrNoRows = ''sql: no rows in result set''"
| "Error (DriverError m) = m"
| "Error (Errorf m w) = m"

text \<open>The verb \<^verbatim>\<open>%d\<close> of \<^verbatim>\<open>fmt\<close> on an integer: decimal digits, with a minus sign.\<close>

definition digit_char :: "nat \<Rightarrow> char" where
  "digit_char n = ''0123456789'' ! n"

fun digits :: "nat \<Rightarrow> string" where
  "digits n = (if n < 10 then [digit_char n] else digits (n div 10) @ [digit_char (n mod 10)])"

declare digits.simps [simp del]

definition fmt_d :: "int \<Rightarrow> string" where
  "fmt_d i = (if i < 0 then CHR ''-'' # digits (nat (- i)) else digits (nat i))"

section \<open>The message texts of the code\<close>

text \<open>Create: the UTF-8 bytes of the Russian text transliterated "oshibka sozdaniya raskhoda: ".\<close>

definition msg_create_failed :: string where
  "msg_create_failed =
    [CHR 0xD0, CHR 0xBE, CHR 0xD1, CHR 0x88, CHR 0xD0, CHR 0xB8, CHR 0xD0, CHR 0xB1,
     CHR 0xD0, CHR 0xBA, CHR 0xD0, CHR 0xB0, CHR 0x20, CHR 0xD1, CHR 0x81, CHR 0xD0,
     CHR 0xBE, CHR 0xD0, CHR 0xB7, CHR 0xD0, CHR 0xB4, CHR 0xD0, CHR 0xB0, CHR 0xD0,
     CHR 0xBD, CHR 0xD0, CHR 0xB8, CHR 0xD1, CHR 0x8F, CHR 0x20, CHR 0xD1, CHR 0x80,
     CHR 0xD0, CHR 0xB0, CHR 0xD1, CHR 0x81, CHR 0xD1, CHR 0x85, CHR 0xD0, CHR 0xBE,
     CHR 0xD0, CHR 0xB4, CHR 0xD0, CHR 0xB0, CHR 0x3A, CHR 0x20]"

text \<open>GetByID: the UTF-8 bytes of the Russian text transliterated "oshibka polucheniya raskhoda: ".\<close>

definition msg_get_failed :: string where
  "msg_get_failed =
    [CHR 0xD0, CHR 0xBE, CHR 0xD1, CHR 0x88, CHR 0xD0, CHR 0xB8, CHR 0xD0, CHR 0xB1,
     CHR 0xD0, CHR 0xBA, CHR 0xD0, CHR 0xB0, CHR 0x20, CHR 0xD0, CHR 0xBF, CHR 0xD0,
     CHR 0xBE, CHR 0xD0, CHR 0xBB, CHR 0xD1, CHR 0x83, CHR 0xD1, CHR 0x87, CHR 0xD0,
     CHR 0xB5, CHR 0xD0, CHR 0xBD, CHR 0xD0, CHR 0xB8, CHR 0xD1, CHR 0x8F, CHR 0x20,
     CHR 0xD1, CHR 0x80, CHR 0xD0, CHR 0xB0, CHR 0xD1, CHR 0x81, CHR 0xD1, CHR 0x85,
     CHR 0xD0, CHR 0xBE, CHR 0xD0, CHR 0xB4, CHR 0xD0, CHR 0xB0, CHR 0x3A, CHR 0x20]"

text \<open>GetAll: the UTF-8 bytes of the Russian text transliterated "oshibka polucheniya spiska raskhodov: ".\<close>

definition msg_list_failed :: string where
  "msg_list_failed =
    [CHR 0xD0, CHR 0xBE, CHR 0xD1, CHR 0x88, CHR 0xD0, CHR 0xB8, CHR 0xD0, CHR 0xB1,
     CHR 0xD0, CHR 0xBA, CHR 0xD0, CHR 0xB0, CHR 0x20, CHR 0xD0, CHR 0xBF, CHR 0xD0,
     CHR 0xBE, CHR 0xD0, CHR 0xBB, CHR 0xD1, CHR 0x83, CHR 0xD1, CHR 0x87, CHR 0xD0,
     CHR 0xB5, CHR 0xD0, CHR 0xBD, CHR 0xD0, CHR 0xB8, CHR 0xD1, CHR 0x8F, CHR 0x20,
     CHR 0xD1, CHR 0x81, CHR 0xD0, CHR 0xBF, CHR 0xD0, CHR 0xB8, CHR 0xD1, CHR 0x81,
     CHR 0xD0, CHR 0xBA, CHR 0xD0, CHR 0xB0, CHR 0x20, CHR 0xD1, CHR 0x80, CHR 0xD0,
     CHR 0xB0, CHR 0xD1, CHR 0x81, CHR 0xD1, CHR 0x85, CHR 0xD0, CHR 0xBE, CHR 0xD0,
     CHR 0xB4, CHR 0xD0, CHR 0xBE, CHR 0xD0, CHR 0xB2, CHR 0x3A, CHR 0x20]"

text \<open>Update: the UTF-8 bytes of the Russian text transliterated "nevernyi format daty: ".\<close>

definition msg_bad_date :: string where
  "msg_bad_date =
    [CHR 0xD0, CHR 0xBD, CHR 0xD0, CHR 0xB5, CHR 0xD0, CHR 0xB2, CHR 0xD0, CHR 0xB5,
     CHR 0xD1, CHR 0x80, CHR 0xD0, CHR 0xBD, CHR 0xD1, CHR 0x8B, CHR 0xD0, CHR 0xB9,
     CHR 0x20, CHR 0xD1, CHR 0x84, CHR 0xD0, CHR 0xBE, CHR 0xD1, CHR 0x80, CHR 0xD0,
     CHR 0xBC, CHR 0xD0, CHR 0xB0, CHR 0xD1, CHR 0x82, CHR 0x20, CHR 0xD0, CHR 0xB4,
     CHR 0xD0, CHR 0xB0, CHR 0xD1, CHR 0x82, CHR 0xD1, CHR 0x8B, CHR 0x3A, CHR 0x20]"

text \<open>Update: the UTF-8 bytes of the Russian text transliterated "oshibka obnovleniya raskhoda: ".\<close>

definition msg_update_failed :: string where
  "msg_update_failed =
    [CHR 0xD0, CHR 0xBE, CHR 0xD1, CHR 0x88, CHR 0xD0, CHR 0xB8, CHR 0xD0, CHR 0xB1,
     CHR 0xD0, CHR 0xBA, CHR 0xD0, CHR 0xB0, CHR 0x20, CHR 0xD0, CHR 0xBE, CHR 0xD0,
     CHR 0xB1, CHR 0xD0, CHR 0xBD, CHR 0xD0, CHR 0xBE, CHR 0xD0, CHR 0xB2, CHR 0xD0,
     CHR 0xBB, CHR 0xD0, CHR 0xB5, CHR 0xD0, CHR 0xBD, CHR 0xD0, CHR 0xB8, CHR 0xD1,
     CHR 0x8F, CHR 0x20, CHR 0xD1, CHR 0x80, CHR 0xD0, CHR 0xB0, CHR 0xD1, CHR 0x81,
     CHR 0xD1, CHR 0x85, CHR 0xD0, CHR 0xBE, CHR 0xD0, CHR 0xB4, CHR 0xD0, CHR 0xB0,
     CHR 0x3A, CHR 0x20]"

text \<open>Delete: the UTF-8 bytes of the Russian text transliterated "oshibka udaleniya raskhoda: ".\<close>

definition msg_delete_failed :: string where
  "msg_delete_failed =
    [CHR 0xD0, CHR 0xBE, CHR 0xD1, CHR 0x88, CHR 0xD0, CHR 0xB8, CHR 0xD0, CHR 0xB1,
     CHR 0xD0, CHR 0xBA, CHR 0xD0, CHR 0xB0, CHR 0x20, CHR 0xD1, CHR 0x83, CHR 0xD0,
     CHR 0xB4, CHR 0xD0, CHR 0xB0, CHR 0xD0, CHR 0xBB, CHR 0xD0, CHR 0xB5, CHR 0xD0,
     CHR 0xBD, CHR 0xD0, CHR 0xB8, CHR 0xD1, CHR 0x8F, CHR 0x20, CHR 0xD1, CHR 0x80,
     CHR 0xD0, CHR 0xB0, CHR 0xD1, CHR 0x81, CHR 0xD1, CHR 0x85, CHR 0xD0, CHR 0xBE,
     CHR 0xD0, CHR 0xB4, CHR 0xD0, CHR 0xB0, CHR 0x3A, CHR 0x20]"

text \<open>the not-found message, before the id: the UTF-8 bytes of the Russian text transliterated "raskhod s id=".\<close>

definition msg_not_found_pre :: string where
  "msg_not_found_pre =
    [CHR 0xD1, CHR 0x80, CHR 0xD0, CHR 0xB0, CHR 0xD1, CHR 0x81, CHR 0xD1, CHR 0x85,
     CHR 0xD0, CHR 0xBE, CHR 0xD0, CHR 0xB4, CHR 0x20, CHR 0xD1, CHR 0x81, CHR 0x20,
     CHR 0x69, CHR 0x64, CHR 0x3D]"

text \<open>the not-found message, after the id: the UTF-8 bytes of the Russian text transliterated " ne naiden".\<close>

definition msg_not_found_post :: string where
  "msg_not_found_post =
    [CHR 0x20, CHR 0xD0, CHR 0xBD, CHR 0xD0, CHR 0xB5, CHR 0x20, CHR 0xD0, CHR 0xBD,
     CHR 0xD0, CHR 0xB0, CHR 0xD0, CHR 0xB9, CHR 0xD0, CHR 0xB4, CHR 0xD0, CHR 0xB5,
     CHR 0xD0, CHR 0xBD]"

text \<open>GetStats, first query: the UTF-8 bytes of the Russian text transliterated "oshibka polucheniya obshchei statistiki: ".\<close>

definition msg_stats_failed :: string where
  "msg_stats_failed =
    [CHR 0xD0, CHR 0xBE, CHR 0xD1, CHR 0x88, CHR 0xD0, CHR 0xB8, CHR 0xD0, CHR 0xB1,
     CHR 0xD0, CHR 0xBA, CHR 0xD0, CHR 0xB0, CHR 0x20, CHR 0xD0, CHR 0xBF, CHR 0xD0,
     CHR 0xBE, CHR 0xD0, CHR 0xBB, CHR 0xD1, CHR 0x83, CHR 0xD1, CHR 0x87, CHR 0xD0,
     CHR 0xB5, CHR 0xD0, CHR 0xBD, CHR 0xD0, CHR 0xB8, CHR 0xD1, CHR 0x8F, CHR 0x20,
     CHR 0xD0, CHR 0xBE, CHR 0xD0, CHR 0xB1, CHR 0xD1, CHR 0x89, CHR 0xD0, CHR 0xB5,
     CHR 0xD0, CHR 0xB9, CHR 0x20, CHR 0xD1, CHR 0x81, CHR 0xD1, CHR 0x82, CHR 0xD0,
     CHR 0xB0, CHR 0xD1, CHR 0x82, CHR 0xD0, CHR 0xB8, CHR 0xD1, CHR 0x81, CHR 0xD1,
     CHR 0x82, CHR 0xD0, CHR 0xB8, CHR 0xD0, CHR 0xBA, CHR 0xD0, CHR 0xB8, CHR 0x3A,
     CHR 0x20]"

text \<open>GetStats, second query: the UTF-8 bytes of the Russian text transliterated "oshibka polucheniya statistiki po kategoriyam: ".\<close>

definition msg_stats_by_category_failed :: string where
  "msg_stats_by_category_failed =
    [CHR 0xD0, CHR 0xBE, CHR 0xD1, CHR 0x88, CHR 0xD0, CHR 0xB8, CHR 0xD0, CHR 0xB1,
     CHR 0xD0, CHR 0xBA, CHR 0xD0, CHR 0xB0, CHR 0x20, CHR 0xD0, CHR 0xBF, CHR 0xD0,
     CHR 0xBE, CHR 0xD0, CHR 0xBB, CHR 0xD1, CHR 0x83, CHR 0xD1, CHR 0x87, CHR 0xD0,
     CHR 0xB5, CHR 0xD0, CHR 0xBD, CHR 0xD0, CHR 0xB8, CHR 0xD1, CHR 0x8F, CHR 0x20,
     CHR 0xD1, CHR 0x81, CHR 0xD1, CHR 0x82, CHR 0xD0, CHR 0xB0, CHR 0xD1, CHR 0x82,
     CHR 0xD0, CHR 0xB8, CHR 0xD1, CHR 0x81, CHR 0xD1, CHR 0x82, CHR 0xD0, CHR 0xB8,
     CHR 0xD0, CHR 0xBA, CHR 0xD0, CHR 0xB8, CHR 0x20, CHR 0xD0, CHR 0xBF, CHR 0xD0,
     CHR 0xBE, CHR 0x20, CHR 0xD0, CHR 0xBA, CHR 0xD0, CHR 0xB0, CHR 0xD1, CHR 0x82,
     CHR 0xD0, CHR 0xB5, CHR 0xD0, CHR 0xB3, CHR 0xD0, CHR 0xBE, CHR 0xD1, CHR 0x80,
     CHR 0xD0, CHR 0xB8, CHR 0xD1, CHR 0x8F, CHR 0xD0, CHR 0xBC, CHR 0x3A, CHR 0x20]"

text \<open>GetCategories: the UTF-8 bytes of the Russian text transliterated "oshibka polucheniya kategorii: ".\<close>

definition msg_categories_failed :: string where
  "msg_categories_failed =
    [CHR 0xD0, CHR 0xBE, CHR 0xD1, CHR 0x88, CHR 0xD0, CHR 0xB8, CHR 0xD0, CHR 0xB1,
     CHR 0xD0, CHR 0xBA, CHR 0xD0, CHR 0xB0, CHR 0x20, CHR 0xD0, CHR 0xBF, CHR 0xD0,
     CHR 0xBE, CHR 0xD0, CHR 0xBB, CHR 0xD1, CHR 0x83, CHR 0xD1, CHR 0x87, CHR 0xD0,
     CHR 0xB5, CHR 0xD0, CHR 0xBD, CHR 0xD0, CHR 0xB8, CHR 0xD1, CHR 0x8F, CHR 0x20,
     CHR 0xD0, CHR 0xBA, CHR 0xD0, CHR 0xB0, CHR 0xD1, CHR 0x82, CHR 0xD0, CHR 0xB5,
     CHR 0xD0, CHR 0xB3, CHR 0xD0, CHR 0xBE, CHR 0xD1, CHR 0x80, CHR 0xD0, CHR 0xB8,
     CHR 0xD0, CHR 0xB9, CHR 0x3A, CHR 0x20]"

text \<open>CreateExpense: the UTF-8 bytes of the Russian text transliterated "nevernyi format daty, ispol'zuite YYYY-MM-DD: ".\<close>

definition msg_bad_date_format :: string where
  "msg_bad_date_format =
    [CHR 0xD0, CHR 0xBD, CHR 0xD0, CHR 0xB5, CHR 0xD0, CHR 0xB2, CHR 0xD0, CHR 0xB5,
     CHR 0xD1, CHR 0x80, CHR 0xD0, CHR 0xBD, CHR 0xD1, CHR 0x8B, CHR 0xD0, CHR 0xB9,
     CHR 0x20, CHR 0xD1, CHR 0x84, CHR 0xD0, CHR 0xBE, CHR 0xD1, CHR 0x80, CHR 0xD0,
     CHR 0xBC, CHR 0xD0, CHR 0xB0, CHR 0xD1, CHR 0x82, CHR 0x20, CHR 0xD0, CHR 0xB4,
     CHR 0xD0, CHR 0xB0, CHR 0xD1, CHR 0x82, CHR 0xD1, CHR 0x8B, CHR 0x2C, CHR 0x20,
     CHR 0xD0, CHR 0xB8, CHR 0xD1, CHR 0x81, CHR 0xD0, CHR 0xBF, CHR 0xD0, CHR 0xBE,
     CHR 0xD0, CHR 0xBB, CHR 0xD1, CHR 0x8C, CHR 0xD0, CHR 0xB7, CHR 0xD1, CHR 0x83,
     CHR 0xD0, CHR 0xB9, CHR 0xD1, CHR 0x82, CHR 0xD0, CHR 0xB5, CHR 0x20, CHR 0x59,
     CHR 0x59, CHR 0x59, CHR 0x59, CHR 0x2D, CHR 0x4D, CHR 0x4D, CHR 0x2D, CHR 0x44,
     CHR 0x44, CHR 0x3A, CHR 0x20]"

text \<open>
  \<^verbatim>\<open>fmt.Errorf("... id=%d ...", id)\<close>, the error that the service (GetExpense,
  UpdateExpense) and the repository (Delete) build for a missing record.
\<close>

definition not_found_error :: "int \<Rightarrow> error" where
  "not_found_error eid = Errorf (msg_not_found_pre @ fmt_d eid @ msg_not_found_post) None"

text \<open>\<^verbatim>\<open>fmt.Errorf(prefix + "%w", err)\<close>.\<close>

definition wrap_error :: "string \<Rightarrow> error \<Rightarrow> error" where
  "wrap_error prefix err = Errorf (prefix @ Error err) (Some err)"

section \<open>Parsing a date with the layout 2006-01-02\<close>

text \<open>
  \<^verbatim>\<open>time.Parse("2006-01-02", value)\<close> of the Go library: four digits, a hyphen, two
  digits, a hyphen, two digits and nothing after them; the month is in 1..12 and the day
  exists in that month of that year.
\<close>

definition isDigit :: "char \<Rightarrow> bool" where
  "isDigit c = (CHR ''0'' \<le> c \<and> c \<le> CHR ''9'')"

definition digit_val :: "char \<Rightarrow> nat" where
  "digit_val c = of_char c - 48"

definition isLeap :: "nat \<Rightarrow> bool" where
  "isLeap year = (year mod 4 = 0 \<and> (year mod 100 \<noteq> 0 \<or> year mod 400 = 0))"

definition daysIn :: "nat \<Rightarrow> nat \<Rightarrow> nat" where
  "daysIn m year =
     (if m = 2 then (if isLeap year then 29 else 28)
      else if m = 4 \<or> m = 6 \<or> m = 9 \<or> m = 11 then 30 else 31)"

definition time_Parse :: "string \<Rightarrow> error + Date" where
  "time_Parse v =
     (if length v = 10 \<and> isDigit (v ! 0) \<and> isDigit (v ! 1) \<and> isDigit (v ! 2) \<and> isDigit (v ! 3)
         \<and> v ! 4 = CHR ''-'' \<and> isDigit (v ! 5) \<and> isDigit (v ! 6)
         \<and> v ! 7 = CHR ''-'' \<and> isDigit (v ! 8) \<and> isDigit (v ! 9)
      then
        (let year = digit_val (v ! 0) * 1000 + digit_val (v ! 1) * 100
                      + digit_val (v ! 2) * 10 + digit_val (v ! 3);
             month = digit_val (v ! 5) * 10 + digit_val (v ! 6);
             day = digit_val (v ! 8) * 10 + digit_val (v ! 9)
         in if month < 1 \<or> 12 < month then Inl (ParseError v)
            else if day < 1 \<or> daysIn month year < day then Inl (ParseError v)
            else Inr (year, month, day))
      else Inl (ParseError v))"

section \<open>The service (package service)\<close>

text \<open>
  The service holds a value of the interface \<^verbatim>\<open>ExpenseRepository\<close>. An implementation
  of the interface is a record of its seven methods over a store of type \<open>'s\<close>; each
  method takes the store and returns its results with the store after the call. A
  \<^verbatim>\<open>(*T, error)\<close> result is a pair of options (\<open>None\<close> is \<^verbatim>\<open>nil\<close>). Create receives a
  pointer to the expense and fills it in, so it returns the expense as it is after the call.
\<close>

record 's ExpenseRepository =
  repo_Create :: "Expense \<Rightarrow> 's \<Rightarrow> (Expense \<times> error option) \<times> 's"
  repo_GetByID :: "int \<Rightarrow> 's \<Rightarrow> (Expense option \<times> error option) \<times> 's"
  repo_GetAll :: "ExpenseFilter \<Rightarrow> 's \<Rightarrow> (Expense list option \<times> error option) \<times> 's"
  repo_Update :: "int \<Rightarrow> UpdateExpenseRequest \<Rightarrow> 's \<Rightarrow> (Expense option \<times> error option) \<times> 's"
  repo_Delete :: "int \<Rightarrow> 's \<Rightarrow> error option \<times> 's"
  repo_GetStats :: "'s \<Rightarrow> (ExpenseStats option \<times> error option) \<times> 's"
  repo_GetCategories :: "'s \<Rightarrow> (string list option \<times> error option) \<times> 's"

definition CreateExpense ::
  "'s ExpenseRepository \<Rightarrow> CreateExpenseRequest \<Rightarrow> 's \<Rightarrow> (Expense option \<times> error option) \<times> 's" where
  "CreateExpense repo req s =
     (case time_Parse (cr_Date req) of
        Inl err \<Rightarrow> ((None, Some (wrap_error msg_bad_date_format err)), s)
      | Inr date \<Rightarrow>
          (let expense = \<lparr>ID = 0, Description = cr_Description req, Amount = cr_Amount req,
                          Category = cr_Category req, Date = date, CreatedAt = 0\<rparr>
           in case repo_Create repo expense s of
                ((expense', Some err), s') \<Rightarrow> ((None, Some err), s')
              | ((expense', None), s') \<Rightarrow> ((Some expense', None), s')))"

definition GetExpense ::
  "'s ExpenseRepository \<Rightarrow> int \<Rightarrow> 's \<Rightarrow> (Expense option \<times> error option) \<times> 's" where
  "GetExpense repo eid s =
     (case repo_GetByID repo eid s of
        ((expense, Some err), s') \<Rightarrow> ((None, Some err), s')
      | ((None, None), s') \<Rightarrow> ((None, Some (not_found_error eid)), s')
      | ((Some expense, None), s') \<Rightarrow> ((Some expense, None), s'))"

definition GetExpenses ::
  "'s ExpenseRepository \<Rightarrow> ExpenseFilter \<Rightarrow> 's \<Rightarrow> (Expense list option \<times> error option) \<times> 's" where
  "GetExpenses repo flt s =
     (let flt1 = (if Limit flt \<le> 0 then flt\<lparr>Limit := 50\<rparr> else flt);
          flt2 = (if Limit flt1 > 100 then flt1\<lparr>Limit := 100\<rparr> else flt1)
      in repo_GetAll repo flt2 s)"

definition UpdateExpense ::
  "'s ExpenseRepository \<Rightarrow> int \<Rightarrow> UpdateExpenseRequest \<Rightarrow> 's \<Rightarrow> (Expense option \<times> error option) \<times> 's" where
  "UpdateExpense repo eid req s =
     (case repo_GetByID repo eid s of
        ((existing, Some err), s') \<Rightarrow> ((None, Some err), s')
      | ((None, None), s') \<Rightarrow> ((None, Some (not_found_error eid)), s')
      | ((Some existing, None), s') \<Rightarrow> repo_Update repo eid req s')"

definition DeleteExpense :: "'s ExpenseRepository \<Rightarrow> int \<Rightarrow> 's \<Rightarrow> error option \<times> 's" where
  "DeleteExpense repo eid s = repo_Delete repo eid s"

definition svc_GetStats ::
  "'s ExpenseRepository \<Rightarrow> 's \<Rightarrow> (ExpenseStats option \<times> error option) \<times> 's" where
  "svc_GetStats repo s = repo_GetStats repo s"

definition svc_GetCategories ::
  "'s ExpenseRepository \<Rightarrow> 's \<Rightarrow> (string list option \<times> error option) \<times> 's" where
  "svc_GetCategories repo s = repo_GetCategories repo s"

section \<open>The relational store\<close>

text \<open>
  The repository talks to a PostgreSQL database through \<^verbatim>\<open>sqlx\<close>. The migration (kept in
  the sources after the Makefile) declares the table:
  \<^verbatim>\<open>id SERIAL PRIMARY KEY, description VARCHAR(500) NOT NULL, amount DECIMAL(10, 2) NOT NULL
  CHECK (amount > 0), category VARCHAR(100) NOT NULL, date DATE NOT NULL, created_at TIMESTAMP
  WITH TIME ZONE\<close>.
  A stored row has these columns; the identifier is a 32-bit signed integer, as \<^verbatim>\<open>SERIAL\<close>
  is. Scanning a row into the Go struct widens the identifier to \<^verbatim>\<open>int64\<close>.
\<close>

record Row =
  row_id :: "32 word"
  row_description :: string
  row_amount :: rat
  row_category :: string
  row_date :: Date
  row_created_at :: Time

definition scan_row :: "Row \<Rightarrow> Expense" where
  "scan_row r =
     \<lparr>ID = sint (row_id r), Description = row_description r, Amount = row_amount r,
      Category = row_category r, Date = row_date r, CreatedAt = row_created_at r\<rparr>"

text \<open>
  The store is the table (its rows in physical order), the sequence that assigns
  identifiers, and what the code cannot see: which rows the server accepts (\<open>row_ok\<close>: the
  CHECK on the amount and the limits of the column types; the rounding of an amount to two
  decimals on assignment is not modelled), which byte strings the server accepts as a text
  parameter in the encoding of the database (\<open>text_ok\<close>), the server's conversion of a text
  parameter to a date (\<open>date_in\<close>, \<open>None\<close> for a text the server rejects), a fault
  (\<open>Some m\<close>: the connection is unusable and every statement fails with the driver error
  \<open>m\<close>) and the reading of \<^verbatim>\<open>time.Now()\<close>. A statement either fails as a whole or
  delivers all its rows: a result set that breaks while it is read is not modelled.
\<close>

record DB =
  table :: "Row list"
  id_seq :: int
  row_ok :: "Row \<Rightarrow> bool"
  text_ok :: "string \<Rightarrow> bool"
  date_in :: "string \<Rightarrow> Date option"
  fault :: "string option"
  clock :: Time

text \<open>The stored expenses, as the Go code reads them.\<close>

definition rows :: "DB \<Rightarrow> Expense list" where
  "rows db = map scan_row (table db)"

text \<open>
  The arguments of a statement; the placeholder \<^verbatim>\<open>$n\<close> is the n-th of them. The server
  gives each placeholder the type of the column it is compared with or assigned to, and
  rejects an argument that has no value of that type: an integer outside the 32 bits of
  the identifier, a text it does not accept, a text that is not a date. The statement then
  fails with an error of the driver; the messages that the model gives these errors are
  placeholders for the server's own.
\<close>

datatype sqlval = SqlInt int | SqlText string | SqlNum rat | SqlDate Date | SqlTime Time

definition param :: "sqlval list \<Rightarrow> nat \<Rightarrow> sqlval option" where
  "param args n = (if 1 \<le> n \<and> n \<le> length args then Some (args ! (n - 1)) else None)"

definition in_int4 :: "int \<Rightarrow> bool" where
  "in_int4 i = (- 2147483648 \<le> i \<and> i \<le> 2147483647)"

fun as_text :: "DB \<Rightarrow> sqlval option \<Rightarrow> string option" where
  "as_text db (Some (SqlText s)) = (if text_ok db s then Some s else None)"
| "as_text db _ = None"

fun as_int :: "sqlval option \<Rightarrow> int option" where
  "as_int (Some (SqlInt i)) = Some i"
| "as_int _ = None"

fun as_int4 :: "sqlval option \<Rightarrow> int option" where
  "as_int4 (Some (SqlInt i)) = (if in_int4 i then Some i else None)"
| "as_int4 _ = None"

fun as_num :: "sqlval option \<Rightarrow> rat option" where
  "as_num (Some (SqlNum r)) = Some r"
| "as_num _ = None"

fun as_time :: "sqlval option \<Rightarrow> Time option" where
  "as_time (Some (SqlTime t)) = Some t"
| "as_time _ = None"

fun as_date :: "DB \<Rightarrow> sqlval option \<Rightarrow> Date option" where
  "as_date db (Some (SqlDate d)) = Some d"
| "as_date db (Some (SqlText s)) = date_in db s"
| "as_date db _ = None"

text \<open>
  The conditions the code writes into a WHERE clause, each with the number of its
  placeholder: \<^verbatim>\<open>category = $n\<close>, \<^verbatim>\<open>date >= $n\<close>, \<^verbatim>\<open>date <= $n\<close>, \<^verbatim>\<open>id = $n\<close>. Binding a
  condition to the arguments gives a predicate on rows, or fails.
\<close>

datatype cond = Category_eq nat | Date_ge nat | Date_le nat | Id_eq nat

fun bind_cond :: "DB \<Rightarrow> sqlval list \<Rightarrow> cond \<Rightarrow> (Row \<Rightarrow> bool) option" where
  "bind_cond db args (Category_eq n) =
     map_option (\<lambda>c r. row_category r = c) (as_text db (param args n))"
| "bind_cond db args (Date_ge n) =
     map_option (\<lambda>d r. d \<le> row_date r) (as_date db (param args n))"
| "bind_cond db args (Date_le n) =
     map_option (\<lambda>d r. row_date r \<le> d) (as_date db (param args n))"
| "bind_cond db args (Id_eq n) =
     map_option (\<lambda>i r. sint (row_id r) = i) (as_int4 (param args n))"

text \<open>
  A query on the table: the conditions joined by AND (no WHERE clause when there is
  none), whether it ends with \<^verbatim>\<open>ORDER BY date DESC, id DESC\<close>, and the placeholders of
  \<^verbatim>\<open>LIMIT\<close> and \<^verbatim>\<open>OFFSET\<close> when the clause is there.
\<close>

record select_stmt =
  sel_where :: "cond list"
  sel_order_by :: bool
  sel_limit :: "nat option"
  sel_offset :: "nat option"

definition select_params :: "select_stmt \<Rightarrow> nat" where
  "select_params q =
     length (sel_where q) + (if sel_limit q = None then 0 else 1)
       + (if sel_offset q = None then 0 else 1)"

text \<open>A row count of LIMIT or OFFSET: absent, or a non-negative integer argument.\<close>

fun bind_count :: "sqlval list \<Rightarrow> nat option \<Rightarrow> nat option option" where
  "bind_count args None = Some None"
| "bind_count args (Some n) =
     (case as_int (param args n) of
        None \<Rightarrow> None
      | Some i \<Rightarrow> if i < 0 then None else Some (Some (nat i)))"

definition order_key :: "Row \<Rightarrow> Date \<times> int" where
  "order_key r = (row_date r, sint (row_id r))"

definition order_date_desc_id_desc :: "Row list \<Rightarrow> Row list" where
  "order_date_desc_id_desc xs = rev (sort_key order_key xs)"

definition db_select :: "DB \<Rightarrow> select_stmt \<Rightarrow> sqlval list \<Rightarrow> error + Row list" where
  "db_select db q args =
     (case fault db of
        Some m \<Rightarrow> Inl (DriverError m)
      | None \<Rightarrow>
          if length args \<noteq> select_params q then Inl (DriverError ''wrong number of parameters'')
          else
            (case those (map (bind_cond db args) (sel_where q)) of
               None \<Rightarrow> Inl (DriverError ''invalid parameter value'')
             | Some ps \<Rightarrow>
                 (case bind_count args (sel_limit q) of
                    None \<Rightarrow> Inl (DriverError ''invalid LIMIT'')
                  | Some limit_rows \<Rightarrow>
                      (case bind_count args (sel_offset q) of
                         None \<Rightarrow> Inl (DriverError ''invalid OFFSET'')
                       | Some offset_rows \<Rightarrow>
                           (let matching = filter (\<lambda>r. list_all (\<lambda>p. p r) ps) (table db);
                                ordered = (if sel_order_by q then order_date_desc_id_desc matching
                                           else matching);
                                skipped = (case offset_rows of None \<Rightarrow> ordered | Some k \<Rightarrow> drop k ordered);
                                limited = (case limit_rows of None \<Rightarrow> skipped | Some k \<Rightarrow> take k skipped)
                            in Inr limited)))))"

text \<open>
  \<^verbatim>\<open>sqlx\<close>'s \<^verbatim>\<open>GetContext\<close> scans the first row and reports \<^verbatim>\<open>sql.ErrNoRows\<close> when there is
  none; \<^verbatim>\<open>SelectContext\<close> scans every row and appends it to the destination slice, which
  stays \<^verbatim>\<open>nil\<close> (\<open>None\<close>) when there is no row.
\<close>

definition GetContext :: "DB \<Rightarrow> select_stmt \<Rightarrow> sqlval list \<Rightarrow> error + Expense" where
  "GetContext db q args =
     (case db_select db q args of
        Inl err \<Rightarrow> Inl err
      | Inr [] \<Rightarrow> Inl ErrNoRows
      | Inr (r # rs) \<Rightarrow> Inr (scan_row r))"

definition SelectContext :: "DB \<Rightarrow> select_stmt \<Rightarrow> sqlval list \<Rightarrow> error + Expense list option" where
  "SelectContext db q args =
     (case db_select db q args of
        Inl err \<Rightarrow> Inl err
      | Inr [] \<Rightarrow> Inr None
      | Inr (r # rs) \<Rightarrow> Inr (Some (map scan_row (r # rs))))"

text \<open>
  \<^verbatim>\<open>INSERT INTO expenses (description, amount, category, date, created_at) VALUES ($1, $2,
  $3, $4, $5) RETURNING id\<close>: the sequence gives the identifier (and advances even when the row
  is refused); the identifier must fit the column, the server must accept the row, and the
  key must be new.
\<close>

definition db_insert :: "DB \<Rightarrow> sqlval list \<Rightarrow> (error + int) \<times> DB" where
  "db_insert db args =
     (case fault db of
        Some m \<Rightarrow> (Inl (DriverError m), db)
      | None \<Rightarrow>
          if length args \<noteq> 5 then (Inl (DriverError ''wrong number of parameters''), db)
          else
            (case (as_text db (param args 1), as_num (param args 2), as_text db (param args 3),
                   as_date db (param args 4), as_time (param args 5)) of
               (Some d, Some a, Some c, Some dt, Some t) \<Rightarrow>
                 (let row = \<lparr>row_id = word_of_int (id_seq db), row_description = d,
                             row_amount = a, row_category = c, row_date = dt,
                             row_created_at = t\<rparr>;
                      db' = db\<lparr>id_seq := id_seq db + 1\<rparr>
                  in if in_int4 (id_seq db) \<and> row_ok db row
                        \<and> row_id row \<notin> set (map row_id (table db))
                     then (Inr (sint (row_id row)), db'\<lparr>table := table db @ [row]\<rparr>)
                     else (Inl (DriverError ''constraint violation''), db'))
             | _ \<Rightarrow> (Inl (DriverError ''invalid parameter value''), db)))"

text \<open>
  \<^verbatim>\<open>UPDATE expenses SET ... WHERE id = $n RETURNING ...\<close>: the assignments with their
  placeholders, and the placeholder of the identifier. A statement with no assignment is a
  syntax error. Every row with that identifier is rewritten and returned; when the server
  does not accept a rewritten row the statement fails and nothing changes.
\<close>

datatype assignment = Set_description nat | Set_amount nat | Set_category nat | Set_date nat

record update_stmt =
  upd_sets :: "assignment list"
  upd_where_id :: nat

fun bind_set :: "DB \<Rightarrow> sqlval list \<Rightarrow> assignment \<Rightarrow> (Row \<Rightarrow> Row) option" where
  "bind_set db args (Set_description n) =
     map_option (\<lambda>v r. r\<lparr>row_description := v\<rparr>) (as_text db (param args n))"
| "bind_set db args (Set_amount n) =
     map_option (\<lambda>v r. r\<lparr>row_amount := v\<rparr>) (as_num (param args n))"
| "bind_set db args (Set_category n) =
     map_option (\<lambda>v r. r\<lparr>row_category := v\<rparr>) (as_text db (param args n))"
| "bind_set db args (Set_date n) =
     map_option (\<lambda>v r. r\<lparr>row_date := v\<rparr>) (as_date db (param args n))"

definition db_update :: "DB \<Rightarrow> update_stmt \<Rightarrow> sqlval list \<Rightarrow> (error + Row list) \<times> DB" where
  "db_update db q args =
     (case fault db of
        Some m \<Rightarrow> (Inl (DriverError m), db)
      | None \<Rightarrow>
          if upd_sets q = [] then (Inl (DriverError ''syntax error''), db)
          else if length args \<noteq> length (upd_sets q) + 1
          then (Inl (DriverError ''wrong number of parameters''), db)
          else
            (case (those (map (bind_set db args) (upd_sets q)),
                   as_int4 (param args (upd_where_id q))) of
               (Some fs, Some i) \<Rightarrow>
                 (let new_row = (\<lambda>r. fold (\<lambda>f x. f x) fs r);
                      returning = map new_row (filter (\<lambda>r. sint (row_id r) = i) (table db))
                  in if list_all (row_ok db) returning
                     then (Inr returning,
                           db\<lparr>table := map (\<lambda>r. if sint (row_id r) = i then new_row r else r)
                                            (table db)\<rparr>)
                     else (Inl (DriverError ''constraint violation''), db))
             | _ \<Rightarrow> (Inl (DriverError ''invalid parameter value''), db)))"

text \<open>\<^verbatim>\<open>QueryRowContext(...).Scan\<close> on that statement: the first returned row, scanned.\<close>

definition QueryRow_update :: "DB \<Rightarrow> update_stmt \<Rightarrow> sqlval list \<Rightarrow> (error + Expense) \<times> DB" where
  "QueryRow_update db q args =
     (case db_update db q args of
        (Inl err, db') \<Rightarrow> (Inl err, db')
      | (Inr [], db') \<Rightarrow> (Inl ErrNoRows, db')
      | (Inr (r # rs), db') \<Rightarrow> (Inr (scan_row r), db'))"

text \<open>\<^verbatim>\<open>DELETE FROM expenses WHERE id = $1\<close>, with the number of rows affected.\<close>

definition db_delete :: "DB \<Rightarrow> sqlval list \<Rightarrow> (error + nat) \<times> DB" where
  "db_delete db args =
     (case fault db of
        Some m \<Rightarrow> (Inl (DriverError m), db)
      | None \<Rightarrow>
          if length args \<noteq> 1 then (Inl (DriverError ''wrong number of parameters''), db)
          else
            (case as_int4 (param args 1) of
               None \<Rightarrow> (Inl (DriverError ''invalid parameter value''), db)
             | Some i \<Rightarrow>
                 (Inr (length (filter (\<lambda>r. sint (row_id r) = i) (table db))),
                  db\<lparr>table := filter (\<lambda>r. sint (row_id r) \<noteq> i) (table db)\<rparr>)))"

text \<open>
  The aggregates of SQL over a column: SUM and AVG are NULL (\<open>None\<close>) over no rows, and
  COALESCE replaces NULL by its second argument. AVG is written as the exact quotient; the
  server rounds it to the scale it selects, and Go reads the sums and the average as
  \<^verbatim>\<open>float64\<close>: nothing is stated below about these numbers.
\<close>

definition sql_SUM :: "rat list \<Rightarrow> rat option" where
  "sql_SUM xs = (if xs = [] then None else Some (sum_list xs))"

definition sql_AVG :: "rat list \<Rightarrow> rat option" where
  "sql_AVG xs = (if xs = [] then None else Some (sum_list xs / of_nat (length xs)))"

definition sql_COUNT :: "'a list \<Rightarrow> int" where
  "sql_COUNT xs = int (length xs)"

definition COALESCE :: "'a option \<Rightarrow> 'a \<Rightarrow> 'a" where
  "COALESCE v d = (case v of None \<Rightarrow> d | Some x \<Rightarrow> x)"

text \<open>
  \<^verbatim>\<open>SELECT COALESCE(SUM(amount), 0), COUNT( * ), COALESCE(AVG(amount), 0) FROM expenses\<close>
\<close>

definition db_totals :: "DB \<Rightarrow> error + rat \<times> int \<times> rat" where
  "db_totals db =
     (case fault db of
        Some m \<Rightarrow> Inl (DriverError m)
      | None \<Rightarrow>
          (let amounts = map row_amount (table db)
           in Inr (COALESCE (sql_SUM amounts) 0, sql_COUNT (table db), COALESCE (sql_AVG amounts) 0)))"

text \<open>
  \<^verbatim>\<open>SELECT category, COALESCE(SUM(amount), 0) FROM expenses GROUP BY category\<close>: one row
  for each category that occurs in the table.
\<close>

definition db_by_category :: "DB \<Rightarrow> error + (string \<times> rat) list" where
  "db_by_category db =
     (case fault db of
        Some m \<Rightarrow> Inl (DriverError m)
      | None \<Rightarrow>
          Inr (map (\<lambda>c. (c, COALESCE (sql_SUM (map row_amount
                                 (filter (\<lambda>r. row_category r = c) (table db)))) 0))
                   (remdups (map row_category (table db)))))"

text \<open>
  \<^verbatim>\<open>SELECT DISTINCT category FROM expenses ORDER BY category\<close>, with the byte order of
  strings as collation; the slice stays \<^verbatim>\<open>nil\<close> when there is no row.
\<close>

definition db_categories :: "DB \<Rightarrow> error + string list option" where
  "db_categories db =
     (case fault db of
        Some m \<Rightarrow> (Inl (DriverError m))
      | None \<Rightarrow>
          (case sort (remdups (map row_category (table db))) of
             [] \<Rightarrow> Inr None
           | c # cs \<Rightarrow> Inr (Some (c # cs))))"

section \<open>The repository (internal/database/repository.go)\<close>

definition Create :: "Expense \<Rightarrow> DB \<Rightarrow> (Expense \<times> error option) \<times> DB" where
  "Create expense0 db =
     (let expense = expense0\<lparr>CreatedAt := clock db\<rparr>
      in case db_insert db [SqlText (Description expense), SqlNum (Amount expense),
                            SqlText (Category expense), SqlDate (Date expense),
                            SqlTime (CreatedAt expense)] of
           (Inl err, db') \<Rightarrow> ((expense, Some (wrap_error msg_create_failed err)), db')
         | (Inr new_id, db') \<Rightarrow> ((expense\<lparr>ID := new_id\<rparr>, None), db'))"

definition GetByID :: "int \<Rightarrow> DB \<Rightarrow> (Expense option \<times> error option) \<times> DB" where
  "GetByID eid db =
     (case GetContext db \<lparr>sel_where = [Id_eq 1], sel_order_by = False,
                          sel_limit = None, sel_offset = None\<rparr> [SqlInt eid] of
        Inl err \<Rightarrow>
          if err = ErrNoRows then ((None, None), db)
          else ((None, Some (wrap_error msg_get_failed err)), db)
      | Inr expense \<Rightarrow> ((Some expense, None), db))"

text \<open>
  GetAll first builds the text of the query and its arguments; \<open>argNum\<close> is the number
  of the next placeholder.
\<close>

definition GetAll_query :: "ExpenseFilter \<Rightarrow> select_stmt \<times> sqlval list" where
  "GetAll_query flt =
     (let (conditions, args, argNum) = ([], [], 1::nat);
          (conditions, args, argNum) =
             (if f_Category flt \<noteq> []
              then (conditions @ [Category_eq argNum], args @ [SqlText (f_Category flt)], argNum + 1)
              else (conditions, args, argNum));
          (conditions, args, argNum) =
             (if DateFrom flt \<noteq> []
              then (conditions @ [Date_ge argNum], args @ [SqlText (DateFrom flt)], argNum + 1)
              else (conditions, args, argNum));
          (conditions, args, argNum) =
             (if DateTo flt \<noteq> []
              then (conditions @ [Date_le argNum], args @ [SqlText (DateTo flt)], argNum + 1)
              else (conditions, args, argNum));
          query = \<lparr>sel_where = conditions, sel_order_by = True,
                   sel_limit = None, sel_offset = None\<rparr>;
          (query, args, argNum) =
             (if Limit flt > 0
              then (query\<lparr>sel_limit := Some argNum\<rparr>, args @ [SqlInt (Limit flt)], argNum + 1)
              else (query, args, argNum));
          (query, args) =
             (if Offset flt > 0
              then (query\<lparr>sel_offset := Some argNum\<rparr>, args @ [SqlInt (Offset flt)])
              else (query, args))
      in (query, args))"

definition GetAll :: "ExpenseFilter \<Rightarrow> DB \<Rightarrow> (Expense list option \<times> error option) \<times> DB" where
  "GetAll flt db =
     (case GetAll_query flt of
        (query, args) \<Rightarrow>
          (case SelectContext db query args of
             Inl err \<Rightarrow> ((None, Some (wrap_error msg_list_failed err)), db)
           | Inr expenses \<Rightarrow>
               ((case expenses of None \<Rightarrow> Some [] | Some xs \<Rightarrow> Some xs, None), db)))"

text \<open>
  Update builds the assignment list from the fields that are present; a date that is
  present is parsed first, and a date that does not parse ends the call.
\<close>

definition Update_sets ::
  "UpdateExpenseRequest \<Rightarrow> error + assignment list \<times> sqlval list \<times> nat" where
  "Update_sets req =
     (let (sets, args, argNum) = ([], [], 1::nat);
          (sets, args, argNum) =
             (case up_Description req of
                Some d \<Rightarrow> (sets @ [Set_description argNum], args @ [SqlText d], argNum + 1)
              | None \<Rightarrow> (sets, args, argNum));
          (sets, args, argNum) =
             (case up_Amount req of
                Some a \<Rightarrow> (sets @ [Set_amount argNum], args @ [SqlNum a], argNum + 1)
              | None \<Rightarrow> (sets, args, argNum));
          (sets, args, argNum) =
             (case up_Category req of
                Some c \<Rightarrow> (sets @ [Set_category argNum], args @ [SqlText c], argNum + 1)
              | None \<Rightarrow> (sets, args, argNum))
      in case up_Date req of
           Some d \<Rightarrow>
             (case time_Parse d of
                Inl err \<Rightarrow> Inl (wrap_error msg_bad_date err)
              | Inr parsedDate \<Rightarrow>
                  Inr (sets @ [Set_date argNum], args @ [SqlDate parsedDate], argNum + 1))
         | None \<Rightarrow> Inr (sets, args, argNum))"

definition Update ::
  "int \<Rightarrow> UpdateExpenseRequest \<Rightarrow> DB \<Rightarrow> (Expense option \<times> error option) \<times> DB" where
  "Update eid req db =
     (case Update_sets req of
        Inl err \<Rightarrow> ((None, Some err), db)
      | Inr (sets, args, argNum) \<Rightarrow>
          if length sets = 0 then GetByID eid db
          else
            (case QueryRow_update db \<lparr>upd_sets = sets, upd_where_id = argNum\<rparr>
                    (args @ [SqlInt eid]) of
               (Inl err, db') \<Rightarrow>
                 if err = ErrNoRows then ((None, None), db')
                 else ((None, Some (wrap_error msg_update_failed err)), db')
             | (Inr expense, db') \<Rightarrow> ((Some expense, None), db')))"

definition Delete :: "int \<Rightarrow> DB \<Rightarrow> error option \<times> DB" where
  "Delete eid db =
     (case db_delete db [SqlInt eid] of
        (Inl err, db') \<Rightarrow> (Some (wrap_error msg_delete_failed err), db')
      | (Inr rowsAffected, db') \<Rightarrow>
          if rowsAffected = 0 then (Some (not_found_error eid), db') else (None, db'))"

text \<open>
  GetStats runs the two aggregate queries and copies the rows of the second into the
  map, one assignment \<^verbatim>\<open>stats.ByCategory[category] = amount\<close> for each row. The rows of
  the model always have their two columns, so the scan of a row does not fail here; the
  loop of the code ends when \<^verbatim>\<open>rows.Next()\<close> reports false and does not consult
  \<^verbatim>\<open>rows.Err()\<close>, which matters only for a result set that breaks while it is read.
\<close>

definition GetStats :: "DB \<Rightarrow> (ExpenseStats option \<times> error option) \<times> DB" where
  "GetStats db =
     (let stats = \<lparr>TotalAmount = 0, ExpenseCount = 0, AverageAmount = 0, ByCategory = Map.empty\<rparr>
      in case db_totals db of
           Inl err \<Rightarrow> ((None, Some (wrap_error msg_stats_failed err)), db)
         | Inr (totalAmount, expenseCount, averageAmount) \<Rightarrow>
             (let stats = stats\<lparr>TotalAmount := totalAmount, ExpenseCount := expenseCount,
                                      AverageAmount := averageAmount\<rparr>
              in case db_by_category db of
                   Inl err \<Rightarrow> ((None, Some (wrap_error msg_stats_by_category_failed err)), db)
                 | Inr category_rows \<Rightarrow>
                     ((Some (fold (\<lambda>(category, amount) st.
                                     st\<lparr>ByCategory := (ByCategory st)(category \<mapsto> amount)\<rparr>)
                                  category_rows stats), None), db)))"

definition GetCategories :: "DB \<Rightarrow> (string list option \<times> error option) \<times> DB" where
  "GetCategories db =
     (case db_categories db of
        Inl err \<Rightarrow> ((None, Some (wrap_error msg_categories_failed err)), db)
      | Inr categories \<Rightarrow>
          ((case categories of None \<Rightarrow> Some [] | Some cs \<Rightarrow> Some cs, None), db))"

text \<open>The repository as the implementation of the interface that the service is given.\<close>

definition NewExpenseRepository :: "DB ExpenseRepository" where
  "NewExpenseRepository =
     \<lparr>repo_Create = Create, repo_GetByID = GetByID, repo_GetAll = GetAll,
      repo_Update = Update, repo_Delete = Delete, repo_GetStats = GetStats,
      repo_GetCategories = GetCategories\<rparr>"

section \<open>The listing, in the words of the specification\<close>

text \<open>
  What the specification says of a listing, to be compared with GetAll: an expense matches
  the filter when it satisfies the conditions that are supplied (a category, a lower and an
  upper bound on the date, the bounds included, each bound a text that the server converts
  to a date); the matching expenses are listed by date descending, then by identifier
  descending; and OFFSET and LIMIT apply only when they are positive.
\<close>

definition spec_matches :: "DB \<Rightarrow> ExpenseFilter \<Rightarrow> Expense \<Rightarrow> bool" where
  "spec_matches db flt e =
     ((f_Category flt \<noteq> [] \<longrightarrow> Category e = f_Category flt)
      \<and> (DateFrom flt \<noteq> [] \<longrightarrow>
           (case date_in db (DateFrom flt) of Some d \<Rightarrow> d \<le> Date e | None \<Rightarrow> False))
      \<and> (DateTo flt \<noteq> [] \<longrightarrow>
           (case date_in db (DateTo flt) of Some d \<Rightarrow> Date e \<le> d | None \<Rightarrow> False)))"

definition spec_listed_before :: "Expense \<Rightarrow> Expense \<Rightarrow> bool" where
  "spec_listed_before a b = (Date b < Date a \<or> (Date a = Date b \<and> ID b \<le> ID a))"

definition spec_page :: "ExpenseFilter \<Rightarrow> 'a list \<Rightarrow> 'a list" where
  "spec_page flt xs =
     (let ys = (if Offset flt > 0 then drop (nat (Offset flt)) xs else xs)
      in if Limit flt > 0 then take (nat (Limit flt)) ys else ys)"

section \<open>A partial update, in the words of the specification\<close>

text \<open>
  The row that a partial update leaves: each field that is present in the request takes
  the requested value (the date as parsed), each absent field keeps its value, and the
  identifier and the creation timestamp stay.
\<close>

definition spec_apply_update :: "UpdateExpenseRequest \<Rightarrow> Expense \<Rightarrow> Expense" where
  "spec_apply_update req e =
     e\<lparr>Description := (case up_Description req of None \<Rightarrow> Description e | Some d \<Rightarrow> d),
       Amount := (case up_Amount req of None \<Rightarrow> Amount e | Some a \<Rightarrow> a),
       Category := (case up_Category req of None \<Rightarrow> Category e | Some c \<Rightarrow> c),
       Date := (case up_Date req of
                  None \<Rightarrow> Date e
                | Some s \<Rightarrow> (case time_Parse s of Inl err \<Rightarrow> Date e | Inr d \<Rightarrow> d))\<rparr>"

text \<open>The same update on a stored row.\<close>

definition update_row :: "UpdateExpenseRequest \<Rightarrow> Row \<Rightarrow> Row" where
  "update_row req r =
     r\<lparr>row_description := (case up_Description req of None \<Rightarrow> row_description r | Some d \<Rightarrow> d),
       row_amount := (case up_Amount req of None \<Rightarrow> row_amount r | Some a \<Rightarrow> a),
       row_category := (case up_Category req of None \<Rightarrow> row_category r | Some c \<Rightarrow> c),
       row_date := (case up_Date req of
                      None \<Rightarrow> row_date r
                    | Some s \<Rightarrow> (case time_Parse s of Inl err \<Rightarrow> row_date r | Inr d \<Rightarrow> d))\<rparr>"

text \<open>
  The server takes the texts of a request or of a filter when it accepts each text that is
  supplied and can convert each date bound that is supplied.
\<close>

definition request_accepted :: "DB \<Rightarrow> UpdateExpenseRequest \<Rightarrow> bool" where
  "request_accepted db req =
     ((case up_Description req of None \<Rightarrow> True | Some d \<Rightarrow> text_ok db d)
      \<and> (case up_Category req of None \<Rightarrow> True | Some c \<Rightarrow> text_ok db c))"

definition filter_accepted :: "DB \<Rightarrow> ExpenseFilter \<Rightarrow> bool" where
  "filter_accepted db flt =
     ((f_Category flt = [] \<or> text_ok db (f_Category flt))
      \<and> (DateFrom flt = [] \<or> date_in db (DateFrom flt) \<noteq> None)
      \<and> (DateTo flt = [] \<or> date_in db (DateTo flt) \<noteq> None))"

section \<open>Example data\<close>

text \<open>
  A store in working order with the three expenses of the example in the specification
  (100 and 200 in Food, 300 in Transport). Its server asks for a positive amount, accepts
  every text without a zero byte, and reads dates in the ISO form only.
\<close>

definition iso_date_in :: "string \<Rightarrow> Date option" where
  "iso_date_in s = (case time_Parse s of Inl err \<Rightarrow> None | Inr d \<Rightarrow> Some d)"

definition example_table :: "Row list" where
  "example_table =
     [\<lparr>row_id = 1, row_description = ''one'', row_amount = 100, row_category = ''Food'',
       row_date = (2024, 1, 15), row_created_at = 1000\<rparr>,
      \<lparr>row_id = 2, row_description = ''two'', row_amount = 200, row_category = ''Food'',
       row_date = (2024, 1, 16), row_created_at = 1001\<rparr>,
      \<lparr>row_id = 3, row_description = ''three'', row_amount = 300, row_category = ''Transport'',
       row_date = (2024, 1, 15), row_created_at = 1002\<rparr>]"

definition example_rows :: "Expense list" where
  "example_rows =
     [\<lparr>ID = 1, Description = ''one'', Amount = 100, Category = ''Food'',
       Date = (2024, 1, 15), CreatedAt = 1000\<rparr>,
      \<lparr>ID = 2, Description = ''two'', Amount = 200, Category = ''Food'',
       Date = (2024, 1, 16), CreatedAt = 1001\<rparr>,
      \<lparr>ID = 3, Description = ''three'', Amount = 300, Category = ''Transport'',
       Date = (2024, 1, 15), CreatedAt = 1002\<rparr>]"

definition example_db :: DB where
  "example_db =
     \<lparr>table = example_table, id_seq = 4, row_ok = (\<lambda>r. 0 < row_amount r),
      text_ok = (\<lambda>s. CHR 0x00 \<notin> set s), date_in = iso_date_in, fault = None, clock = 2000\<rparr>"

text \<open>
  Requests run concurrently, and the service's UpdateExpense makes two round trips. This
  implementation of the interface is the repository as the service sees it when another
  request deletes the expense \<open>victim\<close> between the existence check and the update: its
  Update runs on the store as that deletion leaves it.
\<close>

definition repository_with_concurrent_delete :: "int \<Rightarrow> DB ExpenseRepository" where
  "repository_with_concurrent_delete victim =
     NewExpenseRepository\<lparr>repo_Update := (\<lambda>eid req db. Update eid req (snd (Delete victim db)))\<rparr>"

section \<open>Evaluating the examples\<close>

lemma example_db_simps:
  "fault example_db = None" "table example_db = example_table"
  "row_ok example_db = (\<lambda>r. 0 < row_amount r)" "date_in example_db = iso_date_in"
  "text_ok example_db = (\<lambda>s. CHR 0x00 \<notin> set s)"
  by (simp_all add: example_db_def)

lemma rows_example_db: "rows example_db = example_rows"
  by (simp add: rows_def example_db_simps example_table_def example_rows_def scan_row_def)

lemma iso_date_in_example: "iso_date_in ''2024-01-15'' = Some (2024, 1, 15)"
  by (simp add: iso_date_in_def time_Parse_def isDigit_def digit_val_def daysIn_def)

lemma fmt_d_999: "fmt_d 999 = ''999''"
  by (simp add: fmt_d_def digits.simps digit_char_def)

section \<open>Lookups and deletions in the store\<close>

text \<open>
  A stored identifier is a 32-bit value, so every expense read from the table has an
  identifier in that range.
\<close>

lemma scan_row_simps:
  "ID (scan_row r) = sint (row_id r)" "Description (scan_row r) = row_description r"
  "Amount (scan_row r) = row_amount r" "Category (scan_row r) = row_category r"
  "Date (scan_row r) = row_date r" "CreatedAt (scan_row r) = row_created_at r"
  by (simp_all add: scan_row_def)

lemma in_int4_sint: "in_int4 (sint (w :: 32 word))"
  using sint_lt [of w] sint_ge [of w] by (simp add: in_int4_def)

lemma stored_ID_in_int4: "e \<in> set (rows db) \<Longrightarrow> in_int4 (ID e)"
  by (auto simp: rows_def scan_row_simps in_int4_sint)

lemma rows_update_table: "rows (db\<lparr>table := t\<rparr>) = map scan_row t"
  by (simp add: rows_def)

lemma filter_rows:
  "filter (\<lambda>e. ID e = eid) (rows db) = map scan_row (filter (\<lambda>r. sint (row_id r) = eid) (table db))"
  by (simp add: rows_def filter_map o_def scan_row_simps)

lemma filter_rows_neq:
  "filter (\<lambda>e. ID e \<noteq> eid) (rows db) = map scan_row (filter (\<lambda>r. sint (row_id r) \<noteq> eid) (table db))"
  by (simp add: rows_def filter_map o_def scan_row_simps)

lemma find_filter_case:
  "find P xs = (case filter P xs of [] \<Rightarrow> None | x # ys \<Rightarrow> Some x)"
  by (induction xs) auto

lemma find_distinct_ID:
  assumes "distinct (map ID xs)" and "e \<in> set xs"
  shows "find (\<lambda>x. ID x = ID e) xs = Some e"
  using assms by (induction xs) (auto simp: image_iff)

lemma find_map_same_ID:
  assumes "\<And>x. ID (g x) = ID x"
  shows "find (\<lambda>x. ID x = eid) (map g xs) = map_option g (find (\<lambda>x. ID x = eid) xs)"
  using assms by (induction xs) auto

lemma filter_all_same: "(\<forall>x \<in> set xs. P x) \<Longrightarrow> filter P xs = xs"
  by (induction xs) auto

text \<open>
  On a store in working order GetByID returns, for an identifier of the column's range,
  the first row with the identifier, and nothing when there is none; for an identifier
  outside the range the statement is refused. On a store with a fault it returns the wrapped
  driver error. Delete behaves in the same three ways.
\<close>

lemma GetByID_no_fault:
  "fault db = None \<Longrightarrow> in_int4 eid \<Longrightarrow>
   GetByID eid db = ((find (\<lambda>e. ID e = eid) (rows db), None), db)"
  by (simp add: GetByID_def GetContext_def db_select_def select_params_def param_def
        find_filter_case filter_rows split: list.splits)

lemma GetByID_out_of_range:
  "fault db = None \<Longrightarrow> \<not> in_int4 eid \<Longrightarrow>
   GetByID eid db =
     ((None, Some (wrap_error msg_get_failed (DriverError ''invalid parameter value''))), db)"
  by (simp add: GetByID_def GetContext_def db_select_def select_params_def param_def)

lemma GetByID_fault:
  "fault db = Some m \<Longrightarrow>
   GetByID eid db = ((None, Some (wrap_error msg_get_failed (DriverError m))), db)"
  by (simp add: GetByID_def GetContext_def db_select_def)

lemma GetByID_found_no_fault:
  "GetByID eid db = ((Some e, None), db') \<Longrightarrow> fault db = None \<and> in_int4 eid"
  by (cases "fault db"; cases "in_int4 eid") (auto simp: GetByID_fault GetByID_out_of_range)

lemma GetByID_empty_iff:
  "fst (GetByID eid db) = (None, None)
     \<longleftrightarrow> fault db = None \<and> in_int4 eid \<and> eid \<notin> ID ` set (rows db)"
proof (cases "fault db")
  case None
  show ?thesis
  proof (cases "in_int4 eid")
    case True
    have "find (\<lambda>e. ID e = eid) (rows db) = None \<longleftrightarrow> eid \<notin> ID ` set (rows db)"
      by (auto simp: find_None_iff)
    with None True show ?thesis by (simp add: GetByID_no_fault)
  next
    case False
    with None show ?thesis by (simp add: GetByID_out_of_range)
  qed
next
  case (Some m)
  then show ?thesis by (simp add: GetByID_fault)
qed

lemma Delete_no_fault:
  "fault db = None \<Longrightarrow> in_int4 eid \<Longrightarrow>
   Delete eid db =
     (if filter (\<lambda>e. ID e = eid) (rows db) = [] then Some (not_found_error eid) else None,
      db\<lparr>table := filter (\<lambda>r. sint (row_id r) \<noteq> eid) (table db)\<rparr>)"
  by (simp add: Delete_def db_delete_def param_def filter_rows)

lemma Delete_out_of_range:
  "fault db = None \<Longrightarrow> \<not> in_int4 eid \<Longrightarrow>
   Delete eid db =
     (Some (wrap_error msg_delete_failed (DriverError ''invalid parameter value'')), db)"
  by (simp add: Delete_def db_delete_def param_def)

lemma Delete_fault:
  "fault db = Some m \<Longrightarrow>
   Delete eid db = (Some (wrap_error msg_delete_failed (DriverError m)), db)"
  by (simp add: Delete_def db_delete_def)

lemma rows_after_Delete:
  "fault db = None \<Longrightarrow> in_int4 eid \<Longrightarrow>
   rows (snd (Delete eid db)) = filter (\<lambda>e. ID e \<noteq> eid) (rows db)"
  by (simp add: Delete_no_fault rows_update_table filter_rows_neq)

lemma Delete_zero_rows:
  "db_delete db [SqlInt eid] = (Inr 0, db') \<Longrightarrow> Delete eid db = (Some (not_found_error eid), db')"
  by (simp add: Delete_def)

lemma length_filter_distinct_ID:
  assumes "distinct (map ID xs)" and "eid \<in> ID ` set xs"
  shows "length (filter (\<lambda>e. ID e \<noteq> eid) xs) + 1 = length xs"
  using assms
proof (induction xs)
  case Nil
  then show ?case by simp
next
  case (Cons x xs)
  show ?case
  proof (cases "ID x = eid")
    case True
    with Cons.prems have "\<forall>y \<in> set xs. ID y \<noteq> eid" by (auto simp: image_iff)
    then have "filter (\<lambda>e. ID e \<noteq> eid) xs = xs" by (rule filter_all_same)
    with True show ?thesis by simp
  next
    case False
    with Cons show ?thesis by auto
  qed
qed

section \<open>Properties of the service\<close>

text \<open>
  Claim C2. For every filter, the service's list operation GetExpenses normalises the limit
  before it delegates to the repository's GetAll: a limit that is not positive becomes 50,
  a limit above 100 becomes 100, and any other limit is passed on as it is; the rest of the
  filter is passed on unchanged. This holds for every implementation of the repository.
\<close>

theorem GetExpenses_normalizes_limit:
  "GetExpenses repo flt s =
     repo_GetAll repo
       (flt\<lparr>Limit := (if Limit flt \<le> 0 then 50 else if Limit flt > 100 then 100 else Limit flt)\<rparr>) s"
  by (simp add: GetExpenses_def Let_def)

text \<open>
  With the limits 500, 0, -7 and 30 the repository is asked for 100, 50, 50 and 30.
\<close>

theorem GetExpenses_normalizes_limit_witness:
  "GetExpenses NewExpenseRepository
     \<lparr>f_Category = [], DateFrom = [], DateTo = [], Limit = 500, Offset = 0\<rparr> example_db
   = GetAll \<lparr>f_Category = [], DateFrom = [], DateTo = [], Limit = 100, Offset = 0\<rparr> example_db
   \<and> GetExpenses NewExpenseRepository
     \<lparr>f_Category = [], DateFrom = [], DateTo = [], Limit = 0, Offset = 0\<rparr> example_db
   = GetAll \<lparr>f_Category = [], DateFrom = [], DateTo = [], Limit = 50, Offset = 0\<rparr> example_db
   \<and> GetExpenses NewExpenseRepository
     \<lparr>f_Category = [], DateFrom = [], DateTo = [], Limit = - 7, Offset = 0\<rparr> example_db
   = GetAll \<lparr>f_Category = [], DateFrom = [], DateTo = [], Limit = 50, Offset = 0\<rparr> example_db
   \<and> GetExpenses NewExpenseRepository
     \<lparr>f_Category = [], DateFrom = [], DateTo = [], Limit = 30, Offset = 0\<rparr> example_db
   = GetAll \<lparr>f_Category = [], DateFrom = [], DateTo = [], Limit = 30, Offset = 0\<rparr> example_db"
  unfolding GetExpenses_normalizes_limit by (simp add: NewExpenseRepository_def)

text \<open>
  Claim C4. When the date string of a create request does not parse with the layout
  2006-01-02, CreateExpense fails with the error that wraps the parse error under the
  invalid-date message, and returns the store as it received it. The right-hand side does
  not mention the repository: the result is the same for every implementation of Create,
  also one that changes the store whenever it is called, so Create is not called.
\<close>

theorem CreateExpense_unparseable_date:
  "time_Parse (cr_Date req) = Inl err \<Longrightarrow>
   CreateExpense repo req s = ((None, Some (wrap_error msg_bad_date_format err)), s)"
  by (simp add: CreateExpense_def)

text \<open>
  The date "not-a-date" on the example store.
\<close>

theorem CreateExpense_unparseable_date_witness:
  "time_Parse ''not-a-date'' = Inl (ParseError ''not-a-date'')
   \<and> CreateExpense NewExpenseRepository
        \<lparr>cr_Description = ''lunch'', cr_Amount = 100, cr_Category = ''Food'',
         cr_Date = ''not-a-date''\<rparr> example_db
      = ((None, Some (wrap_error msg_bad_date_format (ParseError ''not-a-date''))), example_db)"
proof -
  have h: "time_Parse (cr_Date \<lparr>cr_Description = ''lunch'', cr_Amount = 100, cr_Category = ''Food'',
         cr_Date = ''not-a-date''\<rparr>) = Inl (ParseError ''not-a-date'')"
    by (simp add: time_Parse_def isDigit_def)
  show ?thesis
    using h CreateExpense_unparseable_date [OF h, of NewExpenseRepository example_db] by simp
qed

text \<open>
  Once the existence check has found a record, UpdateExpense returns whatever the
  repository's Update returns.
\<close>

lemma UpdateExpense_passes_update_result:
  "repo_GetByID repo eid s = ((Some e, None), s1) \<Longrightarrow>
   UpdateExpense repo eid req s = repo_Update repo eid req s1"
  by (simp add: UpdateExpense_def)

text \<open>
  An error that a method of the repository returns is returned by the service operation
  that called it, as it is; the operations without logic of their own return what the
  repository returns.
\<close>

lemma service_propagates_adapter_errors:
  "repo_GetByID repo eid s = ((r, Some err), s') \<Longrightarrow>
     GetExpense repo eid s = ((None, Some err), s')"
  "repo_GetByID repo eid s = ((r, Some err), s') \<Longrightarrow>
     UpdateExpense repo eid req s = ((None, Some err), s')"
  "repo_GetByID repo eid s = ((Some e, None), s1) \<Longrightarrow>
     repo_Update repo eid req s1 = ((r, Some err), s') \<Longrightarrow>
     UpdateExpense repo eid req s = ((r, Some err), s')"
  "time_Parse (cr_Date creq) = Inr d \<Longrightarrow>
     repo_Create repo \<lparr>ID = 0, Description = cr_Description creq, Amount = cr_Amount creq,
                       Category = cr_Category creq, Date = d, CreatedAt = 0\<rparr> s
       = ((e, Some err), s') \<Longrightarrow>
     CreateExpense repo creq s = ((None, Some err), s')"
  "DeleteExpense repo eid s = repo_Delete repo eid s"
  "svc_GetStats repo s = repo_GetStats repo s"
  "svc_GetCategories repo s = repo_GetCategories repo s"
  "\<exists>flt'. GetExpenses repo flt s = repo_GetAll repo flt' s"
  by (auto simp: GetExpense_def UpdateExpense_def CreateExpense_def DeleteExpense_def
        svc_GetStats_def svc_GetCategories_def GetExpenses_def Let_def split: option.splits)

text \<open>
  Claim C1 (the code departs from it). The claim says that no service operation reports
  success when the repository reports an empty result, in particular UpdateExpense when
  Update affects no row. UpdateExpense does not look at the result of the repository's
  Update: when the expense 2 of the example store is deleted between the existence check and
  the update, Update returns no record and no error, and so does UpdateExpense. GetExpense,
  asked before that deletion, finds the expense; and GetExpense does translate an empty
  result into the not-found error (claim C5).
\<close>

theorem UpdateExpense_success_without_record:
  "fst (GetExpense (repository_with_concurrent_delete 2) 2 example_db)
     = (Some \<lparr>ID = 2, Description = ''two'', Amount = 200, Category = ''Food'',
              Date = (2024, 1, 16), CreatedAt = 1001\<rparr>, None)
   \<and> fst (UpdateExpense (repository_with_concurrent_delete 2) 2
        \<lparr>up_Description = Some ''new'', up_Amount = None, up_Category = None, up_Date = None\<rparr>
        example_db) = (None, None)"
  by (simp add: GetExpense_def UpdateExpense_def repository_with_concurrent_delete_def
      NewExpenseRepository_def GetByID_no_fault in_int4_def rows_example_db example_rows_def
      example_db_simps example_table_def Update_def Update_sets_def
      Delete_def db_delete_def param_def QueryRow_update_def db_update_def)

text \<open>
  Claim C5, as the claim states it, fails: it counts every identifier that was never
  created among those for which the repository's lookup reports no record. The identifier
  9999999999 is an \<^verbatim>\<open>int64\<close> that the handler passes on, no stored expense has it, and the
  column cannot hold it: the lookup statement is refused, GetByID reports an error and not
  an empty result, and GetExpense returns that error, which is not the not-found error.
\<close>

theorem GetExpense_never_created_counterexample:
  "fault example_db = None
   \<and> 9999999999 \<notin> ID ` set (rows example_db)
   \<and> fst (GetByID 9999999999 example_db) \<noteq> (None, None)
   \<and> fst (fst (GetExpense NewExpenseRepository 9999999999 example_db)) = None
   \<and> snd (fst (GetExpense NewExpenseRepository 9999999999 example_db)) \<noteq> None
   \<and> snd (fst (GetExpense NewExpenseRepository 9999999999 example_db))
       \<noteq> Some (not_found_error 9999999999)"
  by (simp add: GetExpense_def NewExpenseRepository_def GetByID_out_of_range in_int4_def
        example_db_simps rows_example_db example_rows_def wrap_error_def not_found_error_def)

text \<open>
  Claim C5, amended. When the repository's GetByID reports no record and no error,
  GetExpense fails with the not-found error, whose message is the fixed text around the
  decimal rendering of the identifier; when GetByID reports an error, GetExpense returns
  that error. With the repository of this program, GetByID reports no record and no error
  exactly when the store is in working order and the identifier is in the range of the
  column and of no stored expense. So an identifier of that range that no stored expense has
  (never created), or whose rows a successful Delete has removed, gives the not-found
  error; a fault of the store gives the wrapped driver error, and so does an identifier
  outside the range of the column; a wrapped error is never the not-found error.
\<close>

theorem GetExpense_not_found:
  "(repo_GetByID repo eid s = ((None, None), s') \<longrightarrow>
      GetExpense repo eid s = ((None, Some (not_found_error eid)), s'))
   \<and> Error (not_found_error eid) = msg_not_found_pre @ fmt_d eid @ msg_not_found_post
   \<and> (repo_GetByID repo eid s = ((r, Some err), s') \<longrightarrow>
        GetExpense repo eid s = ((None, Some err), s'))
   \<and> (fst (GetByID eid db) = (None, None)
        \<longleftrightarrow> fault db = None \<and> in_int4 eid \<and> eid \<notin> ID ` set (rows db))
   \<and> (fault db = None \<and> in_int4 eid \<and> eid \<notin> ID ` set (rows db) \<longrightarrow>
        GetExpense NewExpenseRepository eid db = ((None, Some (not_found_error eid)), db))
   \<and> (fst (Delete eid db) = None \<longrightarrow>
        GetExpense NewExpenseRepository eid (snd (Delete eid db))
          = ((None, Some (not_found_error eid)), snd (Delete eid db)))
   \<and> (fault db = Some m \<longrightarrow>
        GetExpense NewExpenseRepository eid db
          = ((None, Some (wrap_error msg_get_failed (DriverError m))), db)
        \<and> wrap_error msg_get_failed (DriverError m) \<noteq> not_found_error eid)
   \<and> (fault db = None \<and> \<not> in_int4 eid \<longrightarrow>
        (\<exists>m. GetExpense NewExpenseRepository eid db
               = ((None, Some (wrap_error msg_get_failed (DriverError m))), db)))
   \<and> (\<forall>cause. wrap_error msg_get_failed cause \<noteq> not_found_error eid)"
proof -
  have a: "repo_GetByID repo eid s = ((None, None), s') \<longrightarrow>
      GetExpense repo eid s = ((None, Some (not_found_error eid)), s')"
    by (simp add: GetExpense_def)
  have b: "Error (not_found_error eid) = msg_not_found_pre @ fmt_d eid @ msg_not_found_post"
    by (simp add: not_found_error_def)
  have c: "repo_GetByID repo eid s = ((r, Some err), s') \<longrightarrow>
        GetExpense repo eid s = ((None, Some err), s')"
    by (simp add: GetExpense_def split: option.splits)
  note d0 = GetByID_empty_iff [of eid db]
  have absent: "find (\<lambda>e. ID e = eid) xs = None" if "eid \<notin> ID ` set xs" for xs
    using that by (auto simp: find_None_iff)
  have d: "fault db = None \<and> in_int4 eid \<and> eid \<notin> ID ` set (rows db) \<longrightarrow>
        GetExpense NewExpenseRepository eid db = ((None, Some (not_found_error eid)), db)"
    by (simp add: GetExpense_def NewExpenseRepository_def GetByID_no_fault absent)
  have e: "fst (Delete eid db) = None \<longrightarrow>
        GetExpense NewExpenseRepository eid (snd (Delete eid db))
          = ((None, Some (not_found_error eid)), snd (Delete eid db))"
  proof
    assume ok: "fst (Delete eid db) = None"
    then have nf: "fault db = None"
      by (cases "fault db") (auto simp: Delete_fault)
    from ok nf have rg: "in_int4 eid"
      by (cases "in_int4 eid") (auto simp: Delete_out_of_range)
    have st: "fault (snd (Delete eid db)) = None"
      using nf rg by (simp add: Delete_no_fault)
    have "find (\<lambda>e. ID e = eid) (rows (snd (Delete eid db))) = None"
      using nf rg by (simp add: rows_after_Delete find_None_iff)
    with st rg show "GetExpense NewExpenseRepository eid (snd (Delete eid db))
          = ((None, Some (not_found_error eid)), snd (Delete eid db))"
      by (simp add: GetExpense_def NewExpenseRepository_def GetByID_no_fault)
  qed
  have f: "fault db = Some m \<longrightarrow>
        GetExpense NewExpenseRepository eid db
          = ((None, Some (wrap_error msg_get_failed (DriverError m))), db)
        \<and> wrap_error msg_get_failed (DriverError m) \<noteq> not_found_error eid"
    by (simp add: GetExpense_def NewExpenseRepository_def GetByID_fault wrap_error_def
          not_found_error_def)
  have g: "fault db = None \<and> \<not> in_int4 eid \<longrightarrow>
        (\<exists>m. GetExpense NewExpenseRepository eid db
               = ((None, Some (wrap_error msg_get_failed (DriverError m))), db))"
    by (auto simp: GetExpense_def NewExpenseRepository_def GetByID_out_of_range)
  have h: "\<forall>cause. wrap_error msg_get_failed cause \<noteq> not_found_error eid"
    by (simp add: wrap_error_def not_found_error_def)
  from a b c d0 d e f g h show ?thesis by blast
qed

text \<open>
  The identifier 999 is not in the example store, the expense 2 is deleted from it, the
  expense 1 is looked up while the connection is refused, and 9999999999 is outside the
  range of the column.
\<close>

theorem GetExpense_not_found_witness:
  "GetExpense NewExpenseRepository 999 example_db
     = ((None, Some (not_found_error 999)), example_db)
   \<and> Error (not_found_error 999) = msg_not_found_pre @ ''999'' @ msg_not_found_post
   \<and> fst (Delete 2 example_db) = None
   \<and> GetExpense NewExpenseRepository 2 (snd (Delete 2 example_db))
       = ((None, Some (not_found_error 2)), snd (Delete 2 example_db))
   \<and> GetExpense NewExpenseRepository 1 (example_db\<lparr>fault := Some ''connection refused''\<rparr>)
       = ((None, Some (wrap_error msg_get_failed (DriverError ''connection refused''))),
          example_db\<lparr>fault := Some ''connection refused''\<rparr>)
   \<and> (\<exists>m. GetExpense NewExpenseRepository 9999999999 example_db
            = ((None, Some (wrap_error msg_get_failed (DriverError m))), example_db))"
proof -
  have absent: "fault example_db = None \<and> in_int4 999 \<and> 999 \<notin> ID ` set (rows example_db)"
    by (simp add: example_db_simps rows_example_db example_rows_def in_int4_def)
  have deleted: "fst (Delete 2 example_db) = None"
    by (simp add: Delete_no_fault example_db_simps rows_example_db example_rows_def in_int4_def)
  have broken: "fault (example_db\<lparr>fault := Some ''connection refused''\<rparr>) = Some ''connection refused''"
    by simp
  have wide: "fault example_db = None \<and> \<not> in_int4 9999999999"
    by (simp add: example_db_simps in_int4_def)
  note t1 = GetExpense_not_found [where eid = 999 and db = example_db
              and repo = NewExpenseRepository and s = example_db and s' = example_db
              and r = None and err = ErrNoRows and m = "''connection refused''"]
  note t2 = GetExpense_not_found [where eid = 2 and db = example_db
              and repo = NewExpenseRepository and s = example_db and s' = example_db
              and r = None and err = ErrNoRows and m = "''connection refused''"]
  note t3 = GetExpense_not_found [where eid = 1
              and db = "example_db\<lparr>fault := Some ''connection refused''\<rparr>"
              and repo = NewExpenseRepository and s = example_db and s' = example_db
              and r = None and err = ErrNoRows and m = "''connection refused''"]
  note t4 = GetExpense_not_found [where eid = 9999999999 and db = example_db
              and repo = NewExpenseRepository and s = example_db and s' = example_db
              and r = None and err = ErrNoRows and m = "''connection refused''"]
  have a: "GetExpense NewExpenseRepository 999 example_db
     = ((None, Some (not_found_error 999)), example_db)"
    using t1 absent by blast
  have b: "Error (not_found_error 999) = msg_not_found_pre @ ''999'' @ msg_not_found_post"
    using t1 fmt_d_999 by simp
  have c: "GetExpense NewExpenseRepository 2 (snd (Delete 2 example_db))
       = ((None, Some (not_found_error 2)), snd (Delete 2 example_db))"
    using t2 deleted by blast
  have d: "GetExpense NewExpenseRepository 1 (example_db\<lparr>fault := Some ''connection refused''\<rparr>)
       = ((None, Some (wrap_error msg_get_failed (DriverError ''connection refused''))),
          example_db\<lparr>fault := Some ''connection refused''\<rparr>)"
    using t3 broken by blast
  have e: "\<exists>m. GetExpense NewExpenseRepository 9999999999 example_db
            = ((None, Some (wrap_error msg_get_failed (DriverError m))), example_db)"
    using t4 wide by blast
  from a b deleted c d e show ?thesis by blast
qed

section \<open>Properties of the listing\<close>

lemma spec_listed_before_key:
  "spec_listed_before (scan_row a) (scan_row b) = (order_key b \<le> order_key a)"
  by (auto simp: spec_listed_before_def order_key_def scan_row_simps)

lemma order_date_desc_id_desc_sorted:
  "sorted_wrt spec_listed_before (map scan_row (order_date_desc_id_desc xs))"
proof -
  have "sorted (map order_key (sort_key order_key xs))" by simp
  then have "sorted_wrt (\<lambda>a b. order_key a \<le> order_key b) (sort_key order_key xs)"
    by (simp add: sorted_wrt_map)
  then have "sorted_wrt (\<lambda>a b. order_key b \<le> order_key a) (rev (sort_key order_key xs))"
    by (simp add: sorted_wrt_rev)
  then show ?thesis
    by (simp add: order_date_desc_id_desc_def sorted_wrt_map spec_listed_before_key)
qed

lemma spec_matches_scan:
  "spec_matches db flt (scan_row r) =
     ((f_Category flt \<noteq> [] \<longrightarrow> row_category r = f_Category flt)
      \<and> (DateFrom flt \<noteq> [] \<longrightarrow>
           (case date_in db (DateFrom flt) of Some d \<Rightarrow> d \<le> row_date r | None \<Rightarrow> False))
      \<and> (DateTo flt \<noteq> [] \<longrightarrow>
           (case date_in db (DateTo flt) of Some d \<Rightarrow> row_date r \<le> d | None \<Rightarrow> False)))"
  by (simp add: spec_matches_def scan_row_simps cong: option.case_cong)

lemma order_date_desc_id_desc_mset:
  "mset (map scan_row (order_date_desc_id_desc (filter (\<lambda>r. spec_matches db flt (scan_row r)) (table db))))
     = mset (filter (spec_matches db flt) (rows db))"
  by (simp add: order_date_desc_id_desc_def rows_def filter_map o_def)

lemma GetAll_via_select:
  "GetAll flt db =
     (case db_select db (fst (GetAll_query flt)) (snd (GetAll_query flt)) of
        Inl err \<Rightarrow> ((None, Some (wrap_error msg_list_failed err)), db)
      | Inr xs \<Rightarrow> ((Some (map scan_row xs), None), db))"
  by (simp add: GetAll_def SelectContext_def split: prod.splits sum.splits list.splits)

lemma spec_page_map: "spec_page flt (map f xs) = map f (spec_page flt xs)"
  by (simp add: spec_page_def Let_def take_map drop_map)

lemma db_select_GetAll_query:
  assumes "fault db = None" and "filter_accepted db flt"
  shows "db_select db (fst (GetAll_query flt)) (snd (GetAll_query flt)) =
     Inr (spec_page flt (order_date_desc_id_desc
            (filter (\<lambda>r. spec_matches db flt (scan_row r)) (table db))))"
  using assms
  by (cases "f_Category flt = []"; cases "DateFrom flt = []"; cases "DateTo flt = []";
      cases "Limit flt > 0"; cases "Offset flt > 0";
      clarsimp simp: GetAll_query_def db_select_def select_params_def filter_accepted_def
        param_def spec_page_def spec_matches_scan Let_def)

lemma db_select_GetAll_query_refused:
  assumes "fault db = None" and "\<not> filter_accepted db flt"
  shows "db_select db (fst (GetAll_query flt)) (snd (GetAll_query flt)) =
     Inl (DriverError ''invalid parameter value'')"
  using assms
  by (cases "f_Category flt = []"; cases "DateFrom flt = []"; cases "DateTo flt = []";
      cases "Limit flt > 0"; cases "Offset flt > 0";
      auto simp: GetAll_query_def db_select_def select_params_def filter_accepted_def
        param_def Let_def split: option.splits)

text \<open>
  Claim C7, as the claim states it, fails: it promises the listing for every filter. The
  handler passes the date bounds of the request on as they are, and for the lower bound
  "not-a-date" the server cannot convert the text: the query fails and GetAll returns no
  list and an error.
\<close>

theorem GetAll_unparseable_date_counterexample:
  "fault example_db = None
   \<and> fst (fst (GetAll \<lparr>f_Category = [], DateFrom = ''not-a-date'', DateTo = [],
                        Limit = 0, Offset = 0\<rparr> example_db)) = None
   \<and> snd (fst (GetAll \<lparr>f_Category = [], DateFrom = ''not-a-date'', DateTo = [],
                        Limit = 0, Offset = 0\<rparr> example_db)) \<noteq> None"
  by (simp add: GetAll_via_select db_select_GetAll_query_refused filter_accepted_def
        example_db_simps iso_date_in_def time_Parse_def isDigit_def)

text \<open>
  Claim C7, amended. On a store in working order, for a filter that the server takes (it
  accepts the category as text and can convert the date bounds that are supplied), GetAll
  returns a list (never nil) and no error: the page, cut by OFFSET and LIMIT where they are
  positive, of a list that holds exactly the stored expenses satisfying the supplied
  conditions (category equal; date not before the lower bound; date not after the upper
  bound) and that is ordered by date descending, then by identifier descending. For a
  filter that the server does not take, GetAll returns no list and the wrapped driver
  error.
\<close>

theorem GetAll_result:
  assumes "fault db = None"
  shows "(filter_accepted db flt \<longrightarrow>
           (\<exists>ordered. GetAll flt db = ((Some (spec_page flt ordered), None), db)
              \<and> mset ordered = mset (filter (spec_matches db flt) (rows db))
              \<and> sorted_wrt spec_listed_before ordered))
         \<and> (\<not> filter_accepted db flt \<longrightarrow>
              (\<exists>m. GetAll flt db =
                     ((None, Some (wrap_error msg_list_failed (DriverError m))), db)))"
proof -
  let ?ordered = "map scan_row (order_date_desc_id_desc
                    (filter (\<lambda>r. spec_matches db flt (scan_row r)) (table db)))"
  have a: "filter_accepted db flt \<longrightarrow>
           (\<exists>ordered. GetAll flt db = ((Some (spec_page flt ordered), None), db)
              \<and> mset ordered = mset (filter (spec_matches db flt) (rows db))
              \<and> sorted_wrt spec_listed_before ordered)"
  proof
    assume acc: "filter_accepted db flt"
    have "GetAll flt db = ((Some (spec_page flt ?ordered), None), db)"
      by (simp add: GetAll_via_select db_select_GetAll_query [OF assms acc] spec_page_map)
    moreover have "mset ?ordered = mset (filter (spec_matches db flt) (rows db))"
      by (rule order_date_desc_id_desc_mset)
    moreover have "sorted_wrt spec_listed_before ?ordered"
      by (rule order_date_desc_id_desc_sorted)
    ultimately show "\<exists>ordered. GetAll flt db = ((Some (spec_page flt ordered), None), db)
              \<and> mset ordered = mset (filter (spec_matches db flt) (rows db))
              \<and> sorted_wrt spec_listed_before ordered"
      by blast
  qed
  have b: "\<not> filter_accepted db flt \<longrightarrow>
              (\<exists>m. GetAll flt db =
                     ((None, Some (wrap_error msg_list_failed (DriverError m))), db))"
    by (auto simp: GetAll_via_select db_select_GetAll_query_refused [OF assms])
  from a b show ?thesis by blast
qed

text \<open>
  The expenses of the category Food dated from 2024-01-15 on, second page of size one: the
  expense 1. A category without expenses gives the empty list. The lower bound "not-a-date"
  gives the error.
\<close>

theorem GetAll_result_witness:
  "fault example_db = None
   \<and> filter_accepted example_db \<lparr>f_Category = ''Food'', DateFrom = ''2024-01-15'', DateTo = [],
                                   Limit = 1, Offset = 1\<rparr>
   \<and> (\<exists>ordered.
         GetAll \<lparr>f_Category = ''Food'', DateFrom = ''2024-01-15'', DateTo = [],
                 Limit = 1, Offset = 1\<rparr> example_db
           = ((Some (spec_page \<lparr>f_Category = ''Food'', DateFrom = ''2024-01-15'', DateTo = [],
                                 Limit = 1, Offset = 1\<rparr> ordered), None), example_db)
         \<and> mset ordered
             = mset (filter (spec_matches example_db
                       \<lparr>f_Category = ''Food'', DateFrom = ''2024-01-15'', DateTo = [],
                        Limit = 1, Offset = 1\<rparr>) (rows example_db))
         \<and> sorted_wrt spec_listed_before ordered)
   \<and> fst (GetAll \<lparr>f_Category = ''Food'', DateFrom = ''2024-01-15'', DateTo = [],
                   Limit = 1, Offset = 1\<rparr> example_db)
       = (Some [\<lparr>ID = 1, Description = ''one'', Amount = 100, Category = ''Food'',
                 Date = (2024, 1, 15), CreatedAt = 1000\<rparr>], None)
   \<and> fst (GetAll \<lparr>f_Category = ''Rent'', DateFrom = [], DateTo = [],
                   Limit = 0, Offset = 0\<rparr> example_db) = (Some [], None)
   \<and> (\<exists>m. GetAll \<lparr>f_Category = [], DateFrom = ''not-a-date'', DateTo = [],
                   Limit = 0, Offset = 0\<rparr> example_db
            = ((None, Some (wrap_error msg_list_failed (DriverError m))), example_db))"
proof -
  let ?flt = "\<lparr>f_Category = ''Food'', DateFrom = ''2024-01-15'', DateTo = [],
                 Limit = 1, Offset = 1\<rparr>"
  let ?rent = "\<lparr>f_Category = ''Rent'', DateFrom = [], DateTo = [], Limit = 0, Offset = 0\<rparr>"
  let ?bad = "\<lparr>f_Category = [], DateFrom = ''not-a-date'', DateTo = [], Limit = 0, Offset = 0\<rparr>"
  have h1: "fault example_db = None" by (simp add: example_db_simps)
  have acc: "filter_accepted example_db ?flt"
    by (simp add: filter_accepted_def example_db_simps iso_date_in_example)
  have acc2: "filter_accepted example_db ?rent"
    by (simp add: filter_accepted_def example_db_simps)
  have nacc: "\<not> filter_accepted example_db ?bad"
    by (simp add: filter_accepted_def example_db_simps iso_date_in_def time_Parse_def isDigit_def)
  from GetAll_result [OF h1, of ?flt] acc
  have ex: "\<exists>ordered. GetAll ?flt example_db = ((Some (spec_page ?flt ordered), None), example_db)
         \<and> mset ordered = mset (filter (spec_matches example_db ?flt) (rows example_db))
         \<and> sorted_wrt spec_listed_before ordered"
    by blast
  from GetAll_result [OF h1, of ?bad] nacc
  have bad: "\<exists>m. GetAll ?bad example_db
       = ((None, Some (wrap_error msg_list_failed (DriverError m))), example_db)"
    by blast
  have v1: "fst (GetAll ?flt example_db)
       = (Some [\<lparr>ID = 1, Description = ''one'', Amount = 100, Category = ''Food'',
                 Date = (2024, 1, 15), CreatedAt = 1000\<rparr>], None)"
    by (simp add: GetAll_via_select db_select_GetAll_query [OF h1 acc] spec_page_def
          spec_matches_scan spec_matches_def order_date_desc_id_desc_def order_key_def scan_row_def
          example_db_simps example_table_def iso_date_in_example)
  have v2: "fst (GetAll ?rent example_db) = (Some [], None)"
    by (simp add: GetAll_via_select db_select_GetAll_query [OF h1 acc2] spec_page_def
          spec_matches_scan spec_matches_def order_date_desc_id_desc_def order_key_def scan_row_def
          example_db_simps example_table_def)
  from h1 acc ex v1 v2 bad show ?thesis by blast
qed

text \<open>
  Claim C10. For a filter whose offset is zero or negative, GetAll builds the same query
  and arguments as for the offset 0, with no OFFSET clause, and so returns the same result; a
  negative offset is neither rejected nor changed. The service passes the offset to GetAll
  as it received it.
\<close>

theorem GetAll_nonpositive_offset:
  assumes "Offset flt \<le> 0"
  shows "GetAll_query flt = GetAll_query (flt\<lparr>Offset := 0\<rparr>)
         \<and> sel_offset (fst (GetAll_query flt)) = None
         \<and> GetAll flt db = GetAll (flt\<lparr>Offset := 0\<rparr>) db
         \<and> (\<exists>flt'. Offset flt' = Offset flt
               \<and> (\<forall>repo s. GetExpenses repo flt s = repo_GetAll repo flt' s))"
proof -
  have q: "GetAll_query flt = GetAll_query (flt\<lparr>Offset := 0\<rparr>)"
    using assms by (simp add: GetAll_query_def Let_def split: prod.splits)
  have off: "sel_offset (fst (GetAll_query flt)) = None"
    using assms by (simp add: GetAll_query_def Let_def split: prod.splits)
  have g: "GetAll flt db = GetAll (flt\<lparr>Offset := 0\<rparr>) db"
    by (simp add: GetAll_def q)
  let ?flt' = "flt\<lparr>Limit := (if Limit flt \<le> 0 then 50 else if Limit flt > 100 then 100 else Limit flt)\<rparr>"
  have "Offset ?flt' = Offset flt" by simp
  moreover have "\<forall>repo s. GetExpenses repo flt s = repo_GetAll repo ?flt' s"
    by (simp add: GetExpenses_def Let_def)
  ultimately have s: "\<exists>flt'. Offset flt' = Offset flt
               \<and> (\<forall>repo s. GetExpenses repo flt s = repo_GetAll repo flt' s)"
    by blast
  from q off g s show ?thesis by blast
qed

text \<open>
  The offset -5 on the example store, with the limit 2.
\<close>

theorem GetAll_nonpositive_offset_witness:
  "GetAll \<lparr>f_Category = [], DateFrom = [], DateTo = [], Limit = 2, Offset = - 5\<rparr> example_db
     = GetAll \<lparr>f_Category = [], DateFrom = [], DateTo = [], Limit = 2, Offset = 0\<rparr> example_db
   \<and> sel_offset (fst (GetAll_query
        \<lparr>f_Category = [], DateFrom = [], DateTo = [], Limit = 2, Offset = - 5\<rparr>)) = None
   \<and> map ID (the (fst (fst (GetAll
        \<lparr>f_Category = [], DateFrom = [], DateTo = [], Limit = 2, Offset = - 5\<rparr> example_db))))
       = [2, 3]"
proof -
  let ?flt = "\<lparr>f_Category = [], DateFrom = [], DateTo = [], Limit = 2, Offset = - 5\<rparr>"
  let ?zero = "\<lparr>f_Category = [], DateFrom = [], DateTo = [], Limit = 2, Offset = 0\<rparr>"
  have h: "Offset ?flt \<le> 0" by simp
  have h1: "fault example_db = None" by (simp add: example_db_simps)
  have acc: "filter_accepted example_db ?zero" by (simp add: filter_accepted_def)
  have v: "map ID (the (fst (fst (GetAll ?zero example_db)))) = [2, 3]"
    by (simp add: GetAll_via_select db_select_GetAll_query [OF h1 acc] spec_page_def
          spec_matches_scan spec_matches_def order_date_desc_id_desc_def order_key_def scan_row_def
          example_db_simps example_table_def)
  from GetAll_nonpositive_offset [OF h, of example_db]
  have e1: "GetAll ?flt example_db = GetAll (?flt\<lparr>Offset := 0\<rparr>) example_db"
    and e2: "sel_offset (fst (GetAll_query ?flt)) = None"
    by blast+
  from e1 have e3: "GetAll ?flt example_db = GetAll ?zero example_db"
    by simp
  have e4: "map ID (the (fst (fst (GetAll ?flt example_db)))) = [2, 3]"
    unfolding e3 by (rule v)
  from e3 e2 e4 show ?thesis by blast
qed

section \<open>Properties of the partial update\<close>

lemma scan_update_row: "scan_row (update_row req r) = spec_apply_update req (scan_row r)"
  by (simp add: scan_row_def update_row_def spec_apply_update_def split: option.splits sum.splits)

lemma update_row_id: "row_id (update_row req r) = row_id r"
  by (simp add: update_row_def)

lemma rows_after_update:
  "map scan_row (map (\<lambda>r. if sint (row_id r) = eid then update_row req r else r) t)
     = map (\<lambda>e. if ID e = eid then spec_apply_update req e else e) (map scan_row t)"
  by (simp add: o_def scan_update_row scan_row_simps if_distrib cong: if_cong)

lemma Update_sets_shape:
  assumes "Update_sets req = Inr (sets, args, n)"
  shows "length args = length sets \<and> n = length sets + 1
          \<and> (sets = [] \<longleftrightarrow> up_Description req = None \<and> up_Amount req = None
                \<and> up_Category req = None \<and> up_Date req = None)
          \<and> (\<forall>s. up_Date req = Some s \<longrightarrow> (\<exists>d. time_Parse s = Inr d))"
  using assms
  by (cases "up_Description req"; cases "up_Amount req"; cases "up_Category req";
      cases "up_Date req";
      auto simp: Update_sets_def Let_def split: sum.splits)

lemma Update_sets_bind:
  assumes "Update_sets req = Inr (sets, args, n)" and "request_accepted db req"
  shows "\<exists>fs. those (map (bind_set db (args @ [SqlInt eid])) sets) = Some fs
          \<and> (\<lambda>r. fold (\<lambda>f x. f x) fs r) = update_row req"
  using assms
  by (cases "up_Description req"; cases "up_Amount req"; cases "up_Category req";
      cases "up_Date req";
      auto simp: Update_sets_def Let_def param_def nth_append update_row_def fun_eq_iff
        request_accepted_def split: sum.splits)

lemma Update_sets_refused:
  assumes "Update_sets req = Inr (sets, args, n)" and "\<not> request_accepted db req"
  shows "those (map (bind_set db (args @ [SqlInt eid])) sets) = None"
  using assms
  by (cases "up_Description req"; cases "up_Amount req"; cases "up_Category req";
      cases "up_Date req";
      auto simp: Update_sets_def Let_def param_def nth_append
        request_accepted_def split: sum.splits option.splits)

lemma spec_apply_update_frame:
  "ID (spec_apply_update req e) = ID e"
  "CreatedAt (spec_apply_update req e) = CreatedAt e"
  "up_Description req = None \<Longrightarrow> Description (spec_apply_update req e) = Description e"
  "up_Amount req = None \<Longrightarrow> Amount (spec_apply_update req e) = Amount e"
  "up_Category req = None \<Longrightarrow> Category (spec_apply_update req e) = Category e"
  "up_Date req = None \<Longrightarrow> Date (spec_apply_update req e) = Date e"
  by (simp_all add: spec_apply_update_def)

lemma spec_apply_update_present:
  "up_Description req = Some d \<Longrightarrow> Description (spec_apply_update req e) = d"
  "up_Amount req = Some a \<Longrightarrow> Amount (spec_apply_update req e) = a"
  "up_Category req = Some c \<Longrightarrow> Category (spec_apply_update req e) = c"
  "up_Date req = Some s \<Longrightarrow> time_Parse s = Inr dt \<Longrightarrow> Date (spec_apply_update req e) = dt"
  by (simp_all add: spec_apply_update_def)

text \<open>
  What Update does on a store in working order for an identifier of the column's range.
\<close>

lemma Update_cases:
  assumes nf: "fault db = None" and rg: "in_int4 eid"
  shows "Update eid req db =
     (case Update_sets req of
        Inl err \<Rightarrow> ((None, Some err), db)
      | Inr (sets, args, n) \<Rightarrow>
          if sets = [] then ((find (\<lambda>x. ID x = eid) (rows db), None), db)
          else if \<not> request_accepted db req
          then ((None, Some (wrap_error msg_update_failed (DriverError ''invalid parameter value''))), db)
          else if list_all (row_ok db)
                    (map (update_row req) (filter (\<lambda>r. sint (row_id r) = eid) (table db)))
          then ((map_option (spec_apply_update req) (find (\<lambda>x. ID x = eid) (rows db)), None),
                db\<lparr>table := map (\<lambda>r. if sint (row_id r) = eid then update_row req r else r)
                                 (table db)\<rparr>)
          else ((None, Some (wrap_error msg_update_failed (DriverError ''constraint violation''))), db))"
proof (cases "Update_sets req")
  case (Inl err)
  then show ?thesis by (simp add: Update_def)
next
  case (Inr t)
  obtain sets args n where t: "t = (sets, args, n)" by (cases t)
  from Inr t have us: "Update_sets req = Inr (sets, args, n)" by simp
  from Update_sets_shape [OF us]
  have len: "length args = length sets" and n: "n = length sets + 1" by blast+
  show ?thesis
  proof (cases "sets = []")
    case True
    with us nf rg show ?thesis by (simp add: Update_def GetByID_no_fault)
  next
    case False
    have par: "as_int4 (param (args @ [SqlInt eid]) n) = Some eid"
      using len n rg by (simp add: param_def nth_append)
    show ?thesis
    proof (cases "request_accepted db req")
      case acc: True
      from Update_sets_bind [OF us acc, of eid] obtain fs where
        fs: "those (map (bind_set db (args @ [SqlInt eid])) sets) = Some fs"
        and new: "(\<lambda>r. fold (\<lambda>f x. f x) fs r) = update_row req"
        by blast
      have upd: "db_update db \<lparr>upd_sets = sets, upd_where_id = n\<rparr> (args @ [SqlInt eid]) =
        (if list_all (row_ok db) (map (update_row req) (filter (\<lambda>r. sint (row_id r) = eid) (table db)))
         then (Inr (map (update_row req) (filter (\<lambda>r. sint (row_id r) = eid) (table db))),
               db\<lparr>table := map (\<lambda>r. if sint (row_id r) = eid then update_row req r else r) (table db)\<rparr>)
         else (Inl (DriverError ''constraint violation''), db))"
        using nf False len fs par new by (simp add: db_update_def Let_def)
      have fnd: "find (\<lambda>x. ID x = eid) (rows db)
                   = (case filter (\<lambda>r. sint (row_id r) = eid) (table db) of
                        [] \<Rightarrow> None | r # rs \<Rightarrow> Some (scan_row r))"
        by (simp add: find_filter_case filter_rows split: list.splits)
      show ?thesis
      proof (cases "filter (\<lambda>r. sint (row_id r) = eid) (table db)")
        case Nil
        with us False acc show ?thesis
          by (simp add: Update_def QueryRow_update_def upd fnd)
      next
        case (Cons r0 rs)
        with us False acc show ?thesis
          by (simp add: Update_def QueryRow_update_def upd fnd scan_update_row)
      qed
    next
      case nacc: False
      have "db_update db \<lparr>upd_sets = sets, upd_where_id = n\<rparr> (args @ [SqlInt eid]) =
        (Inl (DriverError ''invalid parameter value''), db)"
        using nf False len Update_sets_refused [OF us nacc, of eid]
        by (simp add: db_update_def)
      with us False nacc show ?thesis
        by (simp add: Update_def QueryRow_update_def)
    qed
  qed
qed

text \<open>
  Claim C3. For an expense that GetByID finds, whatever Update returns for a request: the
  expense that GetByID finds afterwards has the same identifier and creation timestamp,
  and the same value in every field that is absent from the request; in the whole table
  the columns of the identifier, of the creation timestamp and of every absent field are
  what they were. When Update reports no error it returns that expense, and the fields that
  are present have the requested values.
\<close>

theorem Update_changes_only_present_fields:
  assumes "GetByID eid db = ((Some e, None), db)"
    and "Update eid req db = ((r, err), db')"
  shows "\<exists>e'. GetByID eid db' = ((Some e', None), db')
           \<and> ID e' = ID e \<and> CreatedAt e' = CreatedAt e
           \<and> (up_Description req = None \<longrightarrow> Description e' = Description e)
           \<and> (up_Amount req = None \<longrightarrow> Amount e' = Amount e)
           \<and> (up_Category req = None \<longrightarrow> Category e' = Category e)
           \<and> (up_Date req = None \<longrightarrow> Date e' = Date e)
           \<and> (err = None \<longrightarrow> r = Some e'
                \<and> (\<forall>d. up_Description req = Some d \<longrightarrow> Description e' = d)
                \<and> (\<forall>a. up_Amount req = Some a \<longrightarrow> Amount e' = a)
                \<and> (\<forall>c. up_Category req = Some c \<longrightarrow> Category e' = c)
                \<and> (\<forall>s. up_Date req = Some s \<longrightarrow> time_Parse s = Inr (Date e')))
           \<and> map ID (rows db') = map ID (rows db)
           \<and> map CreatedAt (rows db') = map CreatedAt (rows db)
           \<and> (up_Description req = None \<longrightarrow> map Description (rows db') = map Description (rows db))
           \<and> (up_Amount req = None \<longrightarrow> map Amount (rows db') = map Amount (rows db))
           \<and> (up_Category req = None \<longrightarrow> map Category (rows db') = map Category (rows db))
           \<and> (up_Date req = None \<longrightarrow> map Date (rows db') = map Date (rows db))"
proof -
  from assms(1) have nf: "fault db = None" and rg: "in_int4 eid"
    using GetByID_found_no_fault by blast+
  with assms(1) have found: "find (\<lambda>x. ID x = eid) (rows db) = Some e"
    by (simp add: GetByID_no_fault)
  let ?g = "\<lambda>x. if ID x = eid then spec_apply_update req x else x"
  let ?h = "\<lambda>r. if sint (row_id r) = eid then update_row req r else r"
  have gID: "\<And>x. ID (?g x) = ID x" by (simp add: spec_apply_update_frame)
  consider (same) "db' = db" "err = None \<longrightarrow> r = Some e \<and> up_Description req = None
        \<and> up_Amount req = None \<and> up_Category req = None \<and> up_Date req = None"
    | (changed) "db' = db\<lparr>table := map ?h (table db)\<rparr>" "r = Some (spec_apply_update req e)"
        "\<forall>s. up_Date req = Some s \<longrightarrow> (\<exists>d. time_Parse s = Inr d)"
  proof (cases "Update_sets req")
    case (Inl x)
    with assms(2) nf rg have "db' = db" "err \<noteq> None" by (auto simp: Update_cases)
    then show ?thesis by (intro that(1)) auto
  next
    case (Inr t)
    obtain sets args n where t: "t = (sets, args, n)" by (cases t)
    from Inr t have us: "Update_sets req = Inr (sets, args, n)" by simp
    from Update_sets_shape [OF us]
    have empty: "sets = [] \<longleftrightarrow> up_Description req = None \<and> up_Amount req = None
                \<and> up_Category req = None \<and> up_Date req = None"
      and parsed: "\<forall>s. up_Date req = Some s \<longrightarrow> (\<exists>d. time_Parse s = Inr d)"
      by blast+
    show ?thesis
      using assms(2) nf rg us found empty parsed that
      by (auto simp: Update_cases split: if_splits)
  qed
  then show ?thesis
  proof cases
    case same
    with assms(1) show ?thesis by auto
  next
    case changed
    have nf': "fault db' = None" using changed(1) nf by simp
    have "rows db' = map scan_row (map ?h (table db))"
      using changed(1) by (simp only: rows_update_table)
    also have "\<dots> = map ?g (map scan_row (table db))"
      by (rule rows_after_update)
    finally have rows': "rows db' = map ?g (rows db)"
      by (simp only: rows_def)
    have eid: "ID e = eid" using found by (auto simp: find_Some_iff)
    have "find (\<lambda>x. ID x = eid) (map ?g (rows db)) = map_option ?g (find (\<lambda>x. ID x = eid) (rows db))"
      by (rule find_map_same_ID) (simp add: spec_apply_update_frame)
    with found eid have "find (\<lambda>x. ID x = eid) (map ?g (rows db)) = Some (spec_apply_update req e)"
      by simp
    with nf' rg rows' have get: "GetByID eid db' = ((Some (spec_apply_update req e), None), db')"
      by (simp add: GetByID_no_fault)
    show ?thesis
      using get changed(2,3) rows'
      by (auto simp: spec_apply_update_frame spec_apply_update_present o_def
            intro!: exI [of _ "spec_apply_update req e"])
  qed
qed

text \<open>
  Changing only the description of the expense 1 of the example store.
\<close>

theorem Update_changes_only_present_fields_witness:
  "GetByID 1 example_db =
     ((Some \<lparr>ID = 1, Description = ''one'', Amount = 100, Category = ''Food'',
             Date = (2024, 1, 15), CreatedAt = 1000\<rparr>, None), example_db)
   \<and> fst (Update 1 \<lparr>up_Description = Some ''new'', up_Amount = None, up_Category = None,
                    up_Date = None\<rparr> example_db)
      = (Some \<lparr>ID = 1, Description = ''new'', Amount = 100, Category = ''Food'',
               Date = (2024, 1, 15), CreatedAt = 1000\<rparr>, None)
   \<and> (\<exists>e'. fst (GetByID 1 (snd (Update 1 \<lparr>up_Description = Some ''new'', up_Amount = None,
                    up_Category = None, up_Date = None\<rparr> example_db))) = (Some e', None)
          \<and> ID e' = 1 \<and> CreatedAt e' = 1000 \<and> Description e' = ''new''
          \<and> Amount e' = 100 \<and> Category e' = ''Food'' \<and> Date e' = (2024, 1, 15))
   \<and> map Amount (rows (snd (Update 1 \<lparr>up_Description = Some ''new'', up_Amount = None,
                    up_Category = None, up_Date = None\<rparr> example_db))) = [100, 200, 300]"
proof -
  let ?req = "\<lparr>up_Description = Some ''new'', up_Amount = None, up_Category = None,
                    up_Date = None\<rparr>"
  let ?e = "\<lparr>ID = 1, Description = ''one'', Amount = 100, Category = ''Food'',
             Date = (2024, 1, 15), CreatedAt = 1000\<rparr>"
  let ?new = "\<lparr>ID = 1, Description = ''new'', Amount = 100, Category = ''Food'',
               Date = (2024, 1, 15), CreatedAt = 1000\<rparr>"
  have rg: "in_int4 1" by (simp add: in_int4_def)
  have h1: "GetByID 1 example_db = ((Some ?e, None), example_db)"
    by (simp add: GetByID_no_fault rg example_db_simps rows_example_db example_rows_def)
  have sets: "Update_sets ?req = Inr ([Set_description 1], [SqlText ''new''], 2)"
    by (simp add: Update_sets_def)
  have acc: "request_accepted example_db ?req"
    by (simp add: request_accepted_def example_db_simps)
  have r: "fst (Update 1 ?req example_db) = (Some ?new, None)"
    using acc
    by (simp add: Update_cases rg example_db_simps sets rows_example_db example_rows_def
          example_table_def update_row_def spec_apply_update_def)
  then have h2: "Update 1 ?req example_db = ((Some ?new, None), snd (Update 1 ?req example_db))"
    by (simp add: prod_eq_iff)
  have absent: "up_Amount ?req = None" "up_Category ?req = None" "up_Date ?req = None"
    and present: "up_Description ?req = Some ''new''"
    by simp_all
  from Update_changes_only_present_fields [OF h1 h2] absent present
  obtain e' where e': "GetByID 1 (snd (Update 1 ?req example_db))
                        = ((Some e', None), snd (Update 1 ?req example_db))"
    "ID e' = ID ?e" "CreatedAt e' = CreatedAt ?e" "Amount e' = Amount ?e"
    "Category e' = Category ?e" "Date e' = Date ?e" "Description e' = ''new''"
    and am: "map Amount (rows (snd (Update 1 ?req example_db))) = map Amount (rows example_db)"
    by blast
  have "\<exists>e'. fst (GetByID 1 (snd (Update 1 ?req example_db))) = (Some e', None)
          \<and> ID e' = 1 \<and> CreatedAt e' = 1000 \<and> Description e' = ''new''
          \<and> Amount e' = 100 \<and> Category e' = ''Food'' \<and> Date e' = (2024, 1, 15)"
    using e' by (intro exI [of _ e']) simp
  moreover have "map Amount (rows (snd (Update 1 ?req example_db))) = [100, 200, 300]"
    using am by (simp add: rows_example_db example_rows_def)
  ultimately show ?thesis using h1 r by blast
qed

text \<open>
  Claim C8. With a request in which no field is present, Update is the lookup GetByID: it
  issues no UPDATE statement, and for an expense stored under that identifier, on a store in
  working order, it returns that expense, no error, and the store unchanged.
\<close>

theorem Update_without_fields:
  assumes "up_Description req = None" and "up_Amount req = None"
    and "up_Category req = None" and "up_Date req = None"
  shows "Update eid req db = GetByID eid db
         \<and> (fault db = None \<and> distinct (map ID (rows db)) \<and> e \<in> set (rows db) \<and> ID e = eid
              \<longrightarrow> Update eid req db = ((Some e, None), db))"
proof -
  have sets: "Update_sets req = Inr ([], [], 1)"
    using assms by (simp add: Update_sets_def)
  then have eq: "Update eid req db = GetByID eid db"
    by (simp add: Update_def)
  show ?thesis
    using eq by (auto simp: GetByID_no_fault find_distinct_ID stored_ID_in_int4)
qed

text \<open>
  The empty request for the expense 2 of the example store.
\<close>

theorem Update_without_fields_witness:
  "Update 2 \<lparr>up_Description = None, up_Amount = None, up_Category = None, up_Date = None\<rparr>
     example_db
   = ((Some \<lparr>ID = 2, Description = ''two'', Amount = 200, Category = ''Food'',
             Date = (2024, 1, 16), CreatedAt = 1001\<rparr>, None), example_db)"
proof -
  let ?req = "\<lparr>up_Description = None, up_Amount = None, up_Category = None, up_Date = None\<rparr>"
  let ?e = "\<lparr>ID = 2, Description = ''two'', Amount = 200, Category = ''Food'',
             Date = (2024, 1, 16), CreatedAt = 1001\<rparr>"
  have pre: "fault example_db = None \<and> distinct (map ID (rows example_db))
             \<and> ?e \<in> set (rows example_db) \<and> ID ?e = 2"
    by (simp add: example_db_simps rows_example_db example_rows_def)
  have a: "up_Description ?req = None" and b: "up_Amount ?req = None"
    and c: "up_Category ?req = None" and d: "up_Date ?req = None"
    by simp_all
  show ?thesis
    by (rule mp [OF conjunct2 [OF Update_without_fields [OF a b c d]] pre])
qed

section \<open>Properties of the deletion\<close>

text \<open>
  Claim C6. On a store in working order, DeleteExpense (which delegates to the
  repository's Delete) succeeds exactly when some stored expense has the identifier. When
  the DELETE statement affects zero rows it fails with the not-found error; that is the
  case of an identifier of the column's range that no stored expense has, and the store
  stays as it is. For an identifier outside that range the statement is refused and Delete
  returns the wrapped driver error. The rows with the identifier are removed, which is one
  row when identifiers are unique, and for an identifier that a stored expense has, a
  second deletion fails with the not-found error.
\<close>

theorem DeleteExpense_result:
  assumes "fault db = None"
  shows "(fst (DeleteExpense NewExpenseRepository eid db) = None \<longleftrightarrow> eid \<in> ID ` set (rows db))
    \<and> (\<forall>db'. db_delete db [SqlInt eid] = (Inr 0, db') \<longrightarrow>
          DeleteExpense NewExpenseRepository eid db = (Some (not_found_error eid), db'))
    \<and> (in_int4 eid \<and> eid \<notin> ID ` set (rows db) \<longrightarrow>
         DeleteExpense NewExpenseRepository eid db = (Some (not_found_error eid), db))
    \<and> (\<not> in_int4 eid \<longrightarrow>
         (\<exists>m. DeleteExpense NewExpenseRepository eid db
                = (Some (wrap_error msg_delete_failed (DriverError m)), db)))
    \<and> rows (snd (DeleteExpense NewExpenseRepository eid db)) = filter (\<lambda>e. ID e \<noteq> eid) (rows db)
    \<and> (eid \<in> ID ` set (rows db) \<and> distinct (map ID (rows db)) \<longrightarrow>
         length (rows (snd (DeleteExpense NewExpenseRepository eid db))) + 1 = length (rows db))
    \<and> (eid \<in> ID ` set (rows db) \<longrightarrow>
         fst (DeleteExpense NewExpenseRepository eid (snd (DeleteExpense NewExpenseRepository eid db)))
           = Some (not_found_error eid))"
proof -
  have del: "DeleteExpense NewExpenseRepository eid d = Delete eid d" for d
    by (simp add: DeleteExpense_def NewExpenseRepository_def)
  have empty: "filter (\<lambda>e. ID e = eid) (rows db) = [] \<longleftrightarrow> eid \<notin> ID ` set (rows db)"
    by (auto simp: filter_empty_conv)
  have stored: "eid \<in> ID ` set (rows db) \<Longrightarrow> in_int4 eid"
    by (auto simp: stored_ID_in_int4)
  have a: "fst (Delete eid db) = None \<longleftrightarrow> eid \<in> ID ` set (rows db)"
  proof (cases "in_int4 eid")
    case True
    with assms empty show ?thesis by (simp add: Delete_no_fault)
  next
    case False
    with assms stored show ?thesis by (auto simp: Delete_out_of_range)
  qed
  have z: "\<forall>db'. db_delete db [SqlInt eid] = (Inr 0, db') \<longrightarrow>
          Delete eid db = (Some (not_found_error eid), db')"
    by (simp add: Delete_zero_rows)
  have b: "in_int4 eid \<and> eid \<notin> ID ` set (rows db) \<longrightarrow>
         Delete eid db = (Some (not_found_error eid), db)"
  proof
    assume n: "in_int4 eid \<and> eid \<notin> ID ` set (rows db)"
    then have "\<forall>r \<in> set (table db). sint (row_id r) \<noteq> eid"
      by (auto simp: rows_def scan_row_simps image_iff)
    then have "filter (\<lambda>r. sint (row_id r) \<noteq> eid) (table db) = table db"
      by (rule filter_all_same)
    with n assms empty show "Delete eid db = (Some (not_found_error eid), db)"
      by (simp add: Delete_no_fault)
  qed
  have w: "\<not> in_int4 eid \<longrightarrow>
         (\<exists>m. Delete eid db = (Some (wrap_error msg_delete_failed (DriverError m)), db))"
    using assms by (auto simp: Delete_out_of_range)
  have c: "rows (snd (Delete eid db)) = filter (\<lambda>e. ID e \<noteq> eid) (rows db)"
  proof (cases "in_int4 eid")
    case True
    with assms show ?thesis by (simp add: rows_after_Delete)
  next
    case False
    then have "\<forall>e \<in> set (rows db). ID e \<noteq> eid"
      using stored_ID_in_int4 by blast
    then have "filter (\<lambda>e. ID e \<noteq> eid) (rows db) = rows db"
      by (rule filter_all_same)
    with False assms show ?thesis by (simp add: Delete_out_of_range)
  qed
  have d: "eid \<in> ID ` set (rows db) \<and> distinct (map ID (rows db)) \<longrightarrow>
         length (rows (snd (Delete eid db))) + 1 = length (rows db)"
    using c length_filter_distinct_ID [of "rows db" eid] by simp
  have e: "eid \<in> ID ` set (rows db) \<longrightarrow>
         fst (Delete eid (snd (Delete eid db))) = Some (not_found_error eid)"
  proof
    assume ex: "eid \<in> ID ` set (rows db)"
    then have rg: "in_int4 eid" by (rule stored)
    have nf': "fault (snd (Delete eid db)) = None"
      using assms rg by (simp add: Delete_no_fault)
    have "filter (\<lambda>e. ID e = eid) (rows (snd (Delete eid db))) = []"
      by (simp add: c filter_empty_conv)
    then show "fst (Delete eid (snd (Delete eid db))) = Some (not_found_error eid)"
      by (simp add: Delete_no_fault [OF nf' rg])
  qed
  from a z b w c d e show ?thesis unfolding del by blast
qed

text \<open>
  Deleting the expense 2 of the example store twice, the absent identifier 7, and the
  identifier 9999999999.
\<close>

theorem DeleteExpense_result_witness:
  "fault example_db = None
   \<and> fst (DeleteExpense NewExpenseRepository 2 example_db) = None
   \<and> map ID (rows (snd (DeleteExpense NewExpenseRepository 2 example_db))) = [1, 3]
   \<and> fst (DeleteExpense NewExpenseRepository 2
            (snd (DeleteExpense NewExpenseRepository 2 example_db))) = Some (not_found_error 2)
   \<and> DeleteExpense NewExpenseRepository 7 example_db = (Some (not_found_error 7), example_db)
   \<and> (\<exists>m. DeleteExpense NewExpenseRepository 9999999999 example_db
            = (Some (wrap_error msg_delete_failed (DriverError m)), example_db))"
proof -
  have nf: "fault example_db = None" by (simp add: example_db_simps)
  have ids: "ID ` set (rows example_db) = {1, 2, 3}"
    by (auto simp: rows_example_db example_rows_def)
  have rg: "in_int4 7" "\<not> in_int4 9999999999" by (simp_all add: in_int4_def)
  from DeleteExpense_result [OF nf, of 2] DeleteExpense_result [OF nf, of 7]
    DeleteExpense_result [OF nf, of 9999999999] nf ids rg
  show ?thesis by (simp add: rows_example_db example_rows_def)
qed

end
